theory Spec2Isabelle
  imports Complex_Main
begin

section \<open>QuickTalk: the recording controller, the session logger and the time-warning monitor\<close>

text \<open>
  The embedding follows three source files: \<^verbatim>\<open>session_logger.py\<close> (class SessionLogger),
  \<^verbatim>\<open>simple_visual_indicators.py\<close> (class SimpleVisualIndicator) and
  \<^verbatim>\<open>simple_transcriber.py\<close> (the module globals and the functions audio_callback,
  start_recording and stop_recording_and_transcribe).

  Conventions.
  \<^item> Readings of \<^verbatim>\<open>time.time()\<close> and \<^verbatim>\<open>datetime\<close> values are real numbers (seconds);
    float rounding is not modelled. \<^verbatim>\<open>datetime.fromtimestamp\<close> is the identity.
  \<^item> Everything the program does to the outside is an \<open>event\<close> appended to the trace
    of the world, in program order. Message texts are the source's without the emoji and
    without the formatted diagnostic values.
  \<^item> What an external call answers (the microphone, the WAV writers, the Whisper model,
    the file system) is read from an \<open>env\<close> record: one record per call of a top-level
    function. An external call is fallible in the model where the source has a handler
    for it: opening the stream, the three WAV writers, the read-back test, the Whisper
    model, \<^verbatim>\<open>pyperclip.copy\<close>, \<^verbatim>\<open>pyautogui.hotkey\<close>, \<^verbatim>\<open>os.remove\<close> and the log
    file. The outer handler of
    \<^verbatim>\<open>stop_recording_and_transcribe\<close> is reached through \<^verbatim>\<open>np.concatenate\<close>;
    \<^verbatim>\<open>stream.stop()\<close> and \<^verbatim>\<open>stream.close()\<close> ignore PortAudio errors by default and do
    not raise. The two readings of \<^verbatim>\<open>time.time()\<close> during one start request (the
    transcriber's and the indicator's) are one reading.
  \<^item> The top-level functions are state transformers, and \<open>reachable\<close> runs them one
    after the other. Stop requests come from threads of their own and take no lock, so
    \<open>interleaved\<close> runs them in two steps each, the guard and the body, under a schedule.
\<close>

subsection \<open>Python values\<close>

type_synonym timestamp = real
type_synonym datetime = real
type_synonym audio = "real list"

text \<open>An external call either returns or raises an exception with a message.\<close>

datatype outcome = Succeeds | Raises string

text \<open>Truthiness of an optional float: \<^verbatim>\<open>None\<close> and \<^verbatim>\<open>0.0\<close> are falsy.\<close>

definition truthy_float :: "real option \<Rightarrow> bool" where
  "truthy_float x = (case x of None \<Rightarrow> False | Some v \<Rightarrow> v \<noteq> 0)"

text \<open>Truthiness of an optional string: \<^verbatim>\<open>None\<close> and the empty string are falsy.\<close>

definition truthy_str :: "string option \<Rightarrow> bool" where
  "truthy_str x = (case x of None \<Rightarrow> False | Some s \<Rightarrow> s \<noteq> [])"

text \<open>
  A Python \<^verbatim>\<open>str\<close> that holds a transcript is the list of its code points, so that
  its length and its white space are Python's. The program's own messages, paths and
  exception messages are ASCII and stay Isabelle strings; \<open>unicode\<close> reads one as a
  Python \<^verbatim>\<open>str\<close>.
\<close>

type_synonym pystr = "nat list"

definition unicode :: "string \<Rightarrow> pystr" where
  "unicode s = map of_char s"

text \<open>
  The characters \<^verbatim>\<open>str.strip()\<close> removes: the ASCII white space (codes 9 to 13, 28 to
  32) and the Unicode white space U+0085, U+00A0, U+1680, U+2000 to U+200A, U+2028,
  U+2029, U+202F, U+205F and U+3000.
\<close>

definition is_space :: "nat \<Rightarrow> bool" where
  "is_space c =
     ((9 \<le> c \<and> c \<le> 13) \<or> (28 \<le> c \<and> c \<le> 32) \<or> c = 0x85 \<or> c = 0xA0 \<or> c = 0x1680
      \<or> (0x2000 \<le> c \<and> c \<le> 0x200A) \<or> c = 0x2028 \<or> c = 0x2029 \<or> c = 0x202F
      \<or> c = 0x205F \<or> c = 0x3000)"

definition strip :: "pystr \<Rightarrow> pystr" where
  "strip s = rev (dropWhile is_space (rev (dropWhile is_space s)))"

text \<open>\<^verbatim>\<open>dict.get(key, default)\<close>.\<close>

definition dict_get :: "('k \<rightharpoonup> 'v) \<Rightarrow> 'k \<Rightarrow> 'v \<Rightarrow> 'v" where
  "dict_get d k dflt = (case d k of None \<Rightarrow> dflt | Some v \<Rightarrow> v)"

text \<open>\<^verbatim>\<open>os.path.join\<close> of a folder and a file name.\<close>

definition path_join :: "string \<Rightarrow> string \<Rightarrow> string" where
  "path_join folder name =
     (if folder = [] then name
      else if last folder = CHR ''/'' then folder @ name
      else folder @ ''/'' @ name)"

subsection \<open>The trace of events\<close>

datatype level = DEBUG | INFO | WARNING | ERROR

datatype event =
    Log level string
  | Log_text level string pystr
  | Notify string string
  | Notify_text string pystr
  | Transcribe audio
  | ClipboardCopy pystr
  | PasteHotkey

text \<open>\<^verbatim>\<open>logging.basicConfig(level=logging.INFO)\<close>: a record below INFO is not emitted.\<close>

fun level_no :: "level \<Rightarrow> nat" where
  "level_no DEBUG = 10"
| "level_no INFO = 20"
| "level_no WARNING = 30"
| "level_no ERROR = 40"

definition logging :: "level \<Rightarrow> string \<Rightarrow> event list" where
  "logging lvl msg = (if level_no lvl < level_no INFO then [] else [Log lvl msg])"

text \<open>A log record whose message ends in a formatted transcript.\<close>

definition logging_text :: "level \<Rightarrow> string \<Rightarrow> pystr \<Rightarrow> event list" where
  "logging_text lvl msg t = (if level_no lvl < level_no INFO then [] else [Log_text lvl msg t])"

subsection \<open>session\_logger.py\<close>

text \<open>
  The session log is a text file. Each \<^verbatim>\<open>f.write\<close> of the source is one \<open>entry\<close>
  that keeps the values the source formats into the line.
\<close>

datatype entry =
    Rule50
  | Title_line
  | Session_started datetime
  | App_line
  | Log_file_line string
  | Blank_line
  | Recording_header datetime nat
  | Duration_note real
  | Newline
  | Quoted_text pystr
  | Rule30
  | Error_header datetime nat
  | Error_message string
  | Note_line datetime string
  | Summary_title
  | Session_ended datetime
  | Total_duration real
  | Total_recordings nat

type_synonym files = "string \<rightharpoonup> entry list"

text \<open>
  What the file system answers to one \<^verbatim>\<open>with open(...) as f\<close> block: it works, the
  \<^verbatim>\<open>open\<close> raises, or a write raises after \<open>k\<close> entries have reached the file.
\<close>

datatype io_outcome = IoOk | OpenFails string | WriteFails nat string

text \<open>The block \<^verbatim>\<open>with open(path, 'a') as f: f.write(...) ...\<close>; \<open>Some msg\<close> is the exception.\<close>

definition append_file :: "io_outcome \<Rightarrow> string \<Rightarrow> entry list \<Rightarrow> files \<Rightarrow> string option \<times> files" where
  "append_file io path es fs =
     (case io of
        IoOk \<Rightarrow> (None, fs(path \<mapsto> dict_get fs path [] @ es))
      | OpenFails msg \<Rightarrow> (Some msg, fs)
      | WriteFails k msg \<Rightarrow> (Some msg, fs(path \<mapsto> dict_get fs path [] @ take k es)))"

text \<open>The same block in mode \<^verbatim>\<open>'w'\<close>, which truncates the file.\<close>

definition create_file :: "io_outcome \<Rightarrow> string \<Rightarrow> entry list \<Rightarrow> files \<Rightarrow> string option \<times> files" where
  "create_file io path es fs =
     (case io of
        IoOk \<Rightarrow> (None, fs(path \<mapsto> es))
      | OpenFails msg \<Rightarrow> (Some msg, fs)
      | WriteFails k msg \<Rightarrow> (Some msg, fs(path \<mapsto> take k es)))"

record SessionLogger =
  log_folder_path :: string
  include_metadata :: bool
  session_file_path :: "string option"
  session_start_time :: "datetime option"
  recording_count :: nat

text \<open>What the logger's surroundings answer during one call of a logger method.\<close>

record logger_env =
  datetime_now :: datetime
  strftime_file :: "datetime \<Rightarrow> string"
  folder_exists :: bool
  makedirs :: outcome
  log_io :: io_outcome

text \<open>
  A logger method returns its boolean, the logger, the files and the events it logged.
\<close>

type_synonym logger_result = "bool \<times> SessionLogger \<times> files \<times> event list"

text \<open>
  The rest of \<^verbatim>\<open>_create_session_file\<close> once the folder is there; \<open>evs\<close> holds what has
  been logged so far.
\<close>

definition write_session_header ::
  "logger_env \<Rightarrow> event list \<Rightarrow> SessionLogger \<Rightarrow> files \<Rightarrow> logger_result" where
  "write_session_header e evs self fs =
     (let self1 = self\<lparr>session_start_time := Some (datetime_now e)\<rparr>;
          filename = ''VoiceToText_Session_'' @ strftime_file e (datetime_now e) @ ''.txt'';
          path = path_join (log_folder_path self1) filename;
          self2 = self1\<lparr>session_file_path := Some path\<rparr>
      in (case create_file (log_io e) path
                [Rule50, Title_line, Rule50, Session_started (datetime_now e), App_line,
                 Log_file_line filename, Blank_line] fs of
           (None, fs') \<Rightarrow>
             (True, self2, fs', evs @ logging INFO (''Session log created: '' @ path))
         | (Some msg, fs') \<Rightarrow>
             (False, self2\<lparr>session_file_path := None\<rparr>, fs',
              evs @ logging ERROR (''Failed to create session log: '' @ msg))))"

definition create_session_file :: "logger_env \<Rightarrow> SessionLogger \<Rightarrow> files \<Rightarrow> logger_result" where
  "create_session_file e self fs =
     (if \<not> folder_exists e then
        (case makedirs e of
           Raises msg \<Rightarrow>
             (False, self\<lparr>session_file_path := None\<rparr>, fs,
              logging ERROR (''Failed to create session log: '' @ msg))
         | Succeeds \<Rightarrow>
             write_session_header e
               (logging INFO (''Created log folder: '' @ log_folder_path self)) self fs)
      else write_session_header e [] self fs)"

text \<open>\<^verbatim>\<open>SessionLogger.__init__\<close>.\<close>

definition SessionLogger_init :: "logger_env \<Rightarrow> string \<Rightarrow> bool \<Rightarrow> files \<Rightarrow> SessionLogger \<times> files \<times> event list" where
  "SessionLogger_init e folder metadata fs =
     (case create_session_file e
             \<lparr>log_folder_path = folder, include_metadata = metadata, session_file_path = None,
              session_start_time = None, recording_count = 0\<rparr> fs of
        (_, self, fs', evs) \<Rightarrow> (self, fs', evs))"

definition log_transcription ::
  "logger_env \<Rightarrow> pystr \<Rightarrow> real option \<Rightarrow> datetime option \<Rightarrow> SessionLogger \<Rightarrow> files \<Rightarrow> logger_result" where
  "log_transcription e text_in recording_duration recording_start self fs =
     (if \<not> truthy_str (session_file_path self)
      then (False, self, fs, logging WARNING ''No session file available for logging'')
      else
        let self1 = self\<lparr>recording_count := recording_count self + 1\<rparr>;
            started = (case recording_start of None \<Rightarrow> datetime_now e | Some t \<Rightarrow> t);
            path = (case session_file_path self1 of None \<Rightarrow> [] | Some p \<Rightarrow> p)
        in case append_file (log_io e) path
                  ([Recording_header started (recording_count self1)]
                   @ (if include_metadata self1 \<and> truthy_float recording_duration
                      then (case recording_duration of None \<Rightarrow> [] | Some d \<Rightarrow> [Duration_note d])
                      else [])
                   @ [Newline, Quoted_text text_in, Rule30]) fs of
             (None, fs') \<Rightarrow> (True, self1, fs', logging INFO ''Transcription logged to session file'')
           | (Some msg, fs') \<Rightarrow>
               (False, self1, fs', logging ERROR (''Failed to log transcription: '' @ msg)))"

definition log_error ::
  "logger_env \<Rightarrow> string \<Rightarrow> datetime option \<Rightarrow> SessionLogger \<Rightarrow> files \<Rightarrow> logger_result" where
  "log_error e error_message recording_start self fs =
     (if \<not> truthy_str (session_file_path self)
      then (False, self, fs, [])
      else
        let self1 = self\<lparr>recording_count := recording_count self + 1\<rparr>;
            started = (case recording_start of None \<Rightarrow> datetime_now e | Some t \<Rightarrow> t);
            path = (case session_file_path self1 of None \<Rightarrow> [] | Some p \<Rightarrow> p)
        in case append_file (log_io e) path
                  [Error_header started (recording_count self1), Error_message error_message, Rule30]
                  fs of
             (None, fs') \<Rightarrow> (True, self1, fs', logging INFO ''Error logged to session file'')
           | (Some msg, fs') \<Rightarrow> (False, self1, fs', logging ERROR (''Failed to log error: '' @ msg)))"

definition add_session_note :: "logger_env \<Rightarrow> string \<Rightarrow> SessionLogger \<Rightarrow> files \<Rightarrow> logger_result" where
  "add_session_note e note_in self fs =
     (if \<not> truthy_str (session_file_path self)
      then (False, self, fs, [])
      else
        let path = (case session_file_path self of None \<Rightarrow> [] | Some p \<Rightarrow> p)
        in case append_file (log_io e) path [Note_line (datetime_now e) note_in, Rule30] fs of
             (None, fs') \<Rightarrow> (True, self, fs', logging INFO ''Note added to session file'')
           | (Some msg, fs') \<Rightarrow> (False, self, fs', logging ERROR (''Failed to add note: '' @ msg)))"

text \<open>
  In \<^verbatim>\<open>close_session\<close> the subtraction \<^verbatim>\<open>session_end_time - self.session_start_time\<close> raises a
  TypeError when the start time is \<^verbatim>\<open>None\<close>; the handler turns it into \<^verbatim>\<open>False\<close>.
\<close>

definition close_session :: "logger_env \<Rightarrow> SessionLogger \<Rightarrow> files \<Rightarrow> logger_result" where
  "close_session e self fs =
     (if \<not> truthy_str (session_file_path self)
      then (False, self, fs, [])
      else
        case session_start_time self of
          None \<Rightarrow> (False, self, fs, logging ERROR ''Failed to close session: TypeError'')
        | Some t0 \<Rightarrow>
           (let session_end_time = datetime_now e;
                session_duration = session_end_time - t0;
                path = (case session_file_path self of None \<Rightarrow> [] | Some p \<Rightarrow> p)
            in (case append_file (log_io e) path
                      [Rule50, Summary_title, Rule50, Session_ended session_end_time,
                       Total_duration session_duration, Total_recordings (recording_count self),
                       Rule50] fs of
                 (None, fs') \<Rightarrow> (True, self, fs', logging INFO ''Session closed'')
               | (Some msg, fs') \<Rightarrow>
                   (False, self, fs', logging ERROR (''Failed to close session: '' @ msg)))))"

subsection \<open>simple\_visual\_indicators.py\<close>

text \<open>
  The fields of \<^verbatim>\<open>SimpleVisualIndicator\<close> that its notifications and its monitor read.
  The indicator's own \<^verbatim>\<open>recording\<close> flag is \<open>ind_recording\<close> here (the module global of
  the transcriber keeps the name \<open>recording\<close>). The tray icon only changes a picture and
  a title and is left out.
\<close>

record SimpleVisualIndicator =
  max_duration_sec :: real
  ind_recording :: bool
  start_time :: "timestamp option"
  running :: bool
  warning_30_shown :: bool
  warning_10_shown :: bool
  has_plyer :: bool

text \<open>
  \<^verbatim>\<open>_show_notification\<close>: nothing without plyer; a failure of \<^verbatim>\<open>notification.notify\<close> is
  caught there and only logged, so the event stands for the call.
\<close>

definition show_notification :: "SimpleVisualIndicator \<Rightarrow> string \<Rightarrow> string \<Rightarrow> event list" where
  "show_notification self title message =
     (if \<not> has_plyer self then [] else [Notify title message])"

text \<open>The two warnings of the monitor, as events.\<close>

definition warning_30 :: event where
  "warning_30 = Notify ''Recording Time Warning'' ''30 seconds remaining!''"

definition warning_10 :: event where
  "warning_10 = Notify ''Recording Time Warning'' ''10 seconds remaining!''"

text \<open>
  One iteration of the loop of \<^verbatim>\<open>_monitor_recording_time\<close>, at the clock reading \<open>now\<close>
  (the \<^verbatim>\<open>time.sleep(1)\<close> that ends the iteration has no effect on the state).
\<close>

definition remaining_time :: "SimpleVisualIndicator \<Rightarrow> timestamp \<Rightarrow> real" where
  "remaining_time self now =
     (let elapsed = now - (case start_time self of None \<Rightarrow> 0 | Some t0 \<Rightarrow> t0)
      in max 0 (max_duration_sec self - elapsed))"

definition monitor_tick :: "timestamp \<Rightarrow> SimpleVisualIndicator \<Rightarrow> SimpleVisualIndicator \<times> event list" where
  "monitor_tick now self =
     (if ind_recording self \<and> truthy_float (start_time self) then
        (let remaining = remaining_time self now;
             (self1, evs1) =
               (if remaining \<le> 30 \<and> remaining > 29 \<and> \<not> warning_30_shown self
                then (self\<lparr>warning_30_shown := True\<rparr>,
                      show_notification self ''Recording Time Warning'' ''30 seconds remaining!'')
                else (self, []));
             (self2, evs2) =
               (if remaining \<le> 10 \<and> remaining > 9 \<and> \<not> warning_10_shown self1
                then (self1\<lparr>warning_10_shown := True\<rparr>,
                      show_notification self1 ''Recording Time Warning'' ''10 seconds remaining!'')
                else (self1, []))
         in (self2, evs1 @ evs2))
      else (self, []))"

text \<open>
  The loop \<^verbatim>\<open>while self.running\<close>: the list holds the clock readings of its successive
  iterations, so a finite list is a finite prefix of the thread's run.
\<close>

fun monitor_recording_time ::
  "timestamp list \<Rightarrow> SimpleVisualIndicator \<Rightarrow> SimpleVisualIndicator \<times> event list" where
  "monitor_recording_time [] self = (self, [])"
| "monitor_recording_time (now # ticks) self =
     (if running self then
        (case monitor_tick now self of
           (self1, evs1) \<Rightarrow>
             (case monitor_recording_time ticks self1 of
                (self2, evs2) \<Rightarrow> (self2, evs1 @ evs2)))
      else (self, []))"

text \<open>\<^verbatim>\<open>SimpleVisualIndicator.start_recording\<close>, called at the clock reading \<open>now\<close>.\<close>

definition indicator_start_recording ::
  "timestamp \<Rightarrow> SimpleVisualIndicator \<Rightarrow> SimpleVisualIndicator \<times> event list" where
  "indicator_start_recording now self =
     (let self1 = self\<lparr>ind_recording := True, start_time := Some now,
                        warning_30_shown := False, warning_10_shown := False\<rparr>
      in (self1,
          show_notification self1 ''Recording Started'' ''Voice recording in progress...''
          @ logging INFO ''Visual indicators: Recording started''))"

definition indicator_stop_recording :: "SimpleVisualIndicator \<Rightarrow> SimpleVisualIndicator \<times> event list" where
  "indicator_stop_recording self =
     (let self1 = self\<lparr>ind_recording := False\<rparr>
      in (self1,
          show_notification self1 ''Recording Stopped'' ''Processing audio...''
          @ logging INFO ''Visual indicators: Recording stopped''))"

text \<open>\<^verbatim>\<open>_show_notification\<close> for a message that is formatted from a transcript.\<close>

definition show_notification_text :: "SimpleVisualIndicator \<Rightarrow> string \<Rightarrow> pystr \<Rightarrow> event list" where
  "show_notification_text self title shown =
     (if \<not> has_plyer self then [] else [Notify_text title shown])"

text \<open>\<^verbatim>\<open>transcription_complete\<close>: the preview is the first 50 characters.\<close>

definition preview :: "pystr \<Rightarrow> pystr" where
  "preview t = (if length t > 50 then take 50 t @ unicode ''...'' else t)"

definition transcription_complete :: "pystr \<Rightarrow> SimpleVisualIndicator \<Rightarrow> event list" where
  "transcription_complete t self =
     show_notification_text self ''Transcription Complete''
       (unicode ''Text: '' @ preview t @ [0x0A] @ unicode ''Saved to session log'')
     @ logging INFO ''Visual indicators: Transcription complete''"

definition show_error :: "string \<Rightarrow> SimpleVisualIndicator \<Rightarrow> event list" where
  "show_error error_message self =
     show_notification self ''Error'' error_message
     @ logging INFO (''Visual indicators: Error shown - '' @ error_message)"

text \<open>How often an event occurs in a trace.\<close>

definition occurrences :: "event \<Rightarrow> event list \<Rightarrow> nat" where
  "occurrences ev evs = length (filter (\<lambda>x. x = ev) evs)"

subsection \<open>simple\_transcriber.py: configuration and global state\<close>

definition MAX_DURATION_SEC :: real where
  "MAX_DURATION_SEC = 1800"

definition ENABLE_VISUAL_INDICATORS :: bool where
  "ENABLE_VISUAL_INDICATORS = True"

definition ENABLE_SESSION_LOGGING :: bool where
  "ENABLE_SESSION_LOGGING = True"

text \<open>The stream object (started or not) and the timer object (its thread alive or not).\<close>

datatype stream_obj = InputStream (active: bool)

datatype timer = Timer (is_alive: bool)

text \<open>
  The module globals \<^verbatim>\<open>recording\<close>, \<^verbatim>\<open>audio_frames\<close>, \<^verbatim>\<open>stream\<close>, \<^verbatim>\<open>auto_stop_timer\<close>,
  \<^verbatim>\<open>visual_indicator\<close>, \<^verbatim>\<open>session_logger\<close> and \<^verbatim>\<open>recording_start_time\<close>, and with them
  the file at \<^verbatim>\<open>TEMP_WAV_PATH\<close> (\<open>None\<close>: it does not exist), the session log files and the
  trace. The global \<^verbatim>\<open>model\<close> is the function \<open>whisper\<close> of the environment.
\<close>

record world =
  recording :: bool
  audio_frames :: "audio list"
  stream :: "stream_obj option"
  auto_stop_timer :: "timer option"
  visual_indicator :: "SimpleVisualIndicator option"
  session_logger :: "SessionLogger option"
  recording_start_time :: "timestamp option"
  temp_wav :: "audio option"
  log_files :: files
  events :: "event list"

text \<open>What \<^verbatim>\<open>sd.InputStream(...)\<close> followed by \<^verbatim>\<open>stream.start()\<close> answers.\<close>

datatype stream_outcome = Opened | CreateFails string | StartFails string

text \<open>
  What a WAV writer answers: it wrote the file, or it raised; then the second argument is
  what it left at the path (\<open>None\<close>: it did not touch the path, \<open>Some a\<close>: a partial
  file). For \<^verbatim>\<open>sf.write\<close> the import itself may fail.
\<close>

datatype write_outcome = Written | WriteRaises string "audio option"

datatype sf_outcome = SfOk | SfImportError | SfError string "audio option"

record env =
  clock :: timestamp
  open_stream :: stream_outcome
  concatenate :: outcome
  soundfile :: sf_outcome
  scipy_write :: write_outcome
  wave_write :: write_outcome
  wav_read :: outcome
  whisper :: "audio \<Rightarrow> string + (string \<rightharpoonup> pystr)"
  clipboard_copy :: outcome
  paste_hotkey :: outcome
  remove :: outcome
  log_env :: logger_env

definition emit :: "event list \<Rightarrow> world \<Rightarrow> world" where
  "emit evs w = w\<lparr>events := events w @ evs\<rparr>"

definition logged :: "level \<Rightarrow> string \<Rightarrow> world \<Rightarrow> world" where
  "logged lvl msg w = emit (logging lvl msg) w"

text \<open>The guard \<^verbatim>\<open>if visual_indicator and ENABLE_VISUAL_INDICATORS:\<close> around a method call.\<close>

definition update_indicator ::
  "(SimpleVisualIndicator \<Rightarrow> SimpleVisualIndicator \<times> event list) \<Rightarrow> world \<Rightarrow> world" where
  "update_indicator m w =
     (case visual_indicator w of
        None \<Rightarrow> w
      | Some vi \<Rightarrow>
          if ENABLE_VISUAL_INDICATORS
          then (case m vi of (vi1, evs) \<Rightarrow> emit evs (w\<lparr>visual_indicator := Some vi1\<rparr>))
          else w)"

definition tell_indicator :: "(SimpleVisualIndicator \<Rightarrow> event list) \<Rightarrow> world \<Rightarrow> world" where
  "tell_indicator m w = update_indicator (\<lambda>vi. (vi, m vi)) w"

text \<open>The guard \<^verbatim>\<open>if session_logger and ENABLE_SESSION_LOGGING:\<close> around a method call.\<close>

definition call_logger :: "(SessionLogger \<Rightarrow> files \<Rightarrow> logger_result) \<Rightarrow> world \<Rightarrow> world" where
  "call_logger m w =
     (case session_logger w of
        None \<Rightarrow> w
      | Some lg \<Rightarrow>
          if ENABLE_SESSION_LOGGING
          then (case m lg (log_files w) of
                  (_, lg1, fs1, evs) \<Rightarrow> emit evs (w\<lparr>session_logger := Some lg1, log_files := fs1\<rparr>))
          else w)"

text \<open>
  \<^verbatim>\<open>datetime.fromtimestamp(recording_start_time) if recording_start_time else None\<close>.
\<close>

definition start_datetime :: "world \<Rightarrow> datetime option" where
  "start_datetime w =
     (if truthy_float (recording_start_time w) then recording_start_time w else None)"

subsection \<open>audio\_callback and start\_recording\<close>

definition audio_callback :: "audio \<Rightarrow> string option \<Rightarrow> world \<Rightarrow> world" where
  "audio_callback indata status w =
     (let w1 = (case status of None \<Rightarrow> w | Some flags \<Rightarrow> logged WARNING (''Audio status: '' @ flags) w)
      in if recording w1 then w1\<lparr>audio_frames := audio_frames w1 @ [indata]\<rparr> else w1)"

text \<open>The handler of \<^verbatim>\<open>start_recording\<close>.\<close>

definition start_failed :: "string \<Rightarrow> world \<Rightarrow> world" where
  "start_failed msg w =
     logged ERROR ''Make sure your microphone is connected and accessible.''
       (logged ERROR (''Failed to start recording: '' @ msg) (w\<lparr>recording := False\<rparr>))"

definition start_recording :: "env \<Rightarrow> world \<Rightarrow> world" where
  "start_recording e w =
     (if recording w then logged DEBUG ''start_recording called while already recording.'' w
      else
        (let w1 = w\<lparr>audio_frames := [], recording := True, recording_start_time := Some (clock e)\<rparr>
         in (case open_stream e of
               CreateFails msg \<Rightarrow> start_failed msg w1
             | StartFails msg \<Rightarrow> start_failed msg (w1\<lparr>stream := Some (InputStream False)\<rparr>)
             | Opened \<Rightarrow>
                 (let w2 = logged INFO ''Recording started... (max 30 min)''
                             (w1\<lparr>stream := Some (InputStream True)\<rparr>);
                      w3 = update_indicator (indicator_start_recording (clock e)) w2
                  in w3\<lparr>auto_stop_timer := Some (Timer True)\<rparr>))))"

subsection \<open>stop\_recording\_and\_transcribe\<close>

text \<open>What a writer that raised left at \<^verbatim>\<open>TEMP_WAV_PATH\<close>.\<close>

definition leave_partial :: "audio option \<Rightarrow> world \<Rightarrow> world" where
  "leave_partial left w = (case left of None \<Rightarrow> w | Some a \<Rightarrow> w\<lparr>temp_wav := Some a\<rparr>)"

text \<open>The three ways of writing the WAV file; the result is \<^verbatim>\<open>wav_saved\<close>.\<close>

definition save_wav :: "env \<Rightarrow> audio \<Rightarrow> world \<Rightarrow> bool \<times> world" where
  "save_wav e audio_np w =
     (let (saved1, w1) =
            (case soundfile e of
               SfOk \<Rightarrow> (True, logged INFO ''WAV file saved using soundfile library''
                                (w\<lparr>temp_wav := Some audio_np\<rparr>))
             | SfImportError \<Rightarrow>
                 (False, logged INFO ''soundfile not available, falling back to scipy'' w)
             | SfError msg left \<Rightarrow>
                 (False, logged WARNING (''soundfile failed: '' @ msg @ '', falling back to scipy'')
                           (leave_partial left w)));
          (saved2, w2) =
            (if \<not> saved1 then
               (case scipy_write e of
                  Written \<Rightarrow> (True, logged INFO ''WAV file saved using scipy''
                                    (w1\<lparr>temp_wav := Some audio_np\<rparr>))
                | WriteRaises msg left \<Rightarrow>
                    (False, logged ERROR (''scipy WAV write failed: '' @ msg) (leave_partial left w1)))
             else (saved1, w1));
          (saved3, w3) =
            (if \<not> saved2 then
               (case wave_write e of
                  Written \<Rightarrow> (True, logged INFO ''WAV file saved using wave module''
                                    (w2\<lparr>temp_wav := Some audio_np\<rparr>))
                | WriteRaises msg left \<Rightarrow>
                    (False, logged ERROR (''wave module failed: '' @ msg) (leave_partial left w2)))
             else (saved2, w2))
      in (saved3, w3))"

text \<open>
  The duration measured in the branch \<^verbatim>\<open>if text:\<close>:
  \<^verbatim>\<open>time.time() - recording_start_time\<close> if the start time is truthy, else \<^verbatim>\<open>None\<close>.
\<close>

definition measured_duration :: "env \<Rightarrow> world \<Rightarrow> real option" where
  "measured_duration e w =
     (if truthy_float (recording_start_time w)
      then (case recording_start_time w of None \<Rightarrow> None | Some t0 \<Rightarrow> Some (clock e - t0))
      else None)"

text \<open>
  The branch \<^verbatim>\<open>if text:\<close> of the inner \<^verbatim>\<open>try\<close>. The first component is the exception
  that \<^verbatim>\<open>pyperclip.copy\<close> or \<^verbatim>\<open>pyautogui.hotkey\<close> raises, if any; it reaches the
  handler of the inner \<^verbatim>\<open>try\<close>. A copy or a paste is an event when the call returned.
\<close>

definition deliver_text :: "env \<Rightarrow> pystr \<Rightarrow> world \<Rightarrow> string option \<times> world" where
  "deliver_text e txt w =
     (let w1 = emit (logging_text INFO ''Transcription: '' txt) w;
          recording_duration = measured_duration e w1;
          w2 = call_logger (log_transcription (log_env e) txt recording_duration (start_datetime w1)) w1;
          w3 = tell_indicator (transcription_complete txt) w2
      in (case clipboard_copy e of
            Raises msg \<Rightarrow> (Some msg, w3)
          | Succeeds \<Rightarrow>
              (let w4 = emit [ClipboardCopy txt] w3
               in (case paste_hotkey e of
                     Raises msg \<Rightarrow> (Some msg, w4)
                   | Succeeds \<Rightarrow>
                       (None, logged INFO ''Text pasted at cursor.'' (emit [PasteHotkey] w4))))))"

text \<open>The branch \<^verbatim>\<open>else\<close> of \<^verbatim>\<open>if text:\<close>.\<close>

definition no_speech :: "env \<Rightarrow> world \<Rightarrow> world" where
  "no_speech e w =
     (let w1 = logged WARNING ''No speech detected in recording.'' w;
          w2 = call_logger (log_error (log_env e) ''No speech detected in recording'' (start_datetime w1)) w1
      in tell_indicator (show_error ''No speech detected in recording'') w2)"

text \<open>The handler \<^verbatim>\<open>except Exception as transcribe_error\<close> of the inner \<^verbatim>\<open>try\<close>.\<close>

definition transcription_failed :: "env \<Rightarrow> string \<Rightarrow> world \<Rightarrow> world" where
  "transcription_failed e err w =
     (let w1 = logged ERROR (''Transcription error: '' @ err) w;
          w2 = logged ERROR ''WAV file path'' w1;
          w3 = logged ERROR ''Absolute path'' w2;
          w4 = logged ERROR ''WAV file exists'' w3;
          w5 = (if temp_wav w4 \<noteq> None then logged ERROR ''WAV file size'' w4 else w4);
          w6 = call_logger (log_error (log_env e) (''Transcription failed: '' @ err) (start_datetime w5)) w5
      in tell_indicator (show_error ''Transcription failed'') w6)"

text \<open>The inner \<^verbatim>\<open>try\<close> with the two log lines before it.\<close>

definition transcribe_audio :: "env \<Rightarrow> audio \<Rightarrow> world \<Rightarrow> world" where
  "transcribe_audio e audio_np w =
     (let w1 = logged INFO ''Transcribing... please wait.'' w;
          w2 = logged INFO ''Using direct numpy array transcription...'' w1;
          w3 = emit [Transcribe audio_np] w2
      in (case whisper e audio_np of
            Inl err \<Rightarrow> transcription_failed e err w3
          | Inr result \<Rightarrow>
              (let txt = strip (dict_get result ''text'' [])
               in if txt \<noteq> [] then
                    (case deliver_text e txt w3 of
                       (None, w4) \<Rightarrow> w4
                     | (Some err, w4) \<Rightarrow> transcription_failed e err w4)
                  else no_speech e w3)))"

text \<open>
  The body of the outer \<^verbatim>\<open>try\<close>. The first component is the exception that leaves the
  body, if any; \<open>None\<close> covers the normal end and each \<^verbatim>\<open>return\<close>.
\<close>

definition process_audio :: "env \<Rightarrow> world \<Rightarrow> string option \<times> world" where
  "process_audio e w =
     (let w1 = (case stream w of None \<Rightarrow> w | Some s \<Rightarrow> w\<lparr>stream := None\<rparr>)
      in if audio_frames w1 = [] then (None, logged WARNING ''No audio data recorded.'' w1)
         else
           (let w2 = logged INFO ''Captured audio frames'' (logged INFO ''Processing audio...'' w1)
            in (case concatenate e of
                  Raises msg \<Rightarrow> (Some msg, w2)
                | Succeeds \<Rightarrow>
                    (let audio_np = concat (audio_frames w2);
                         w3 = logged INFO ''Saving audio'' (logged INFO ''Audio array shape'' w2);
                         (wav_saved, w4) = save_wav e audio_np w3
                     in if \<not> wav_saved
                        then (None, logged ERROR ''All WAV writing methods failed!'' w4)
                        else if temp_wav w4 = None
                        then (None, logged ERROR ''WAV file does not exist'' w4)
                        else
                          (let w5 = logged INFO ''WAV file verified'' w4;
                               w6 = (case wav_read e of
                                       Succeeds \<Rightarrow> logged INFO ''WAV file readable'' w5
                                     | Raises msg \<Rightarrow>
                                         logged WARNING (''WAV file read test failed: '' @ msg) w5)
                           in (None, transcribe_audio e audio_np w6))))))"

text \<open>The \<^verbatim>\<open>finally\<close> block.\<close>

definition cleanup_temp_file :: "env \<Rightarrow> world \<Rightarrow> world" where
  "cleanup_temp_file e w =
     (if temp_wav w \<noteq> None then
        (case remove e of
           Succeeds \<Rightarrow> logged DEBUG ''Cleaned up temp file'' (w\<lparr>temp_wav := None\<rparr>)
         | Raises msg \<Rightarrow> logged WARNING (''Could not remove temp file: '' @ msg) w)
      else w)"

definition cancel_timer :: "world \<Rightarrow> world" where
  "cancel_timer w =
     (case auto_stop_timer w of
        None \<Rightarrow> w
      | Some t \<Rightarrow> if is_alive t then w\<lparr>auto_stop_timer := Some (Timer False)\<rparr> else w)"

text \<open>Everything after the guard, from \<^verbatim>\<open>recording = False\<close> to the \<^verbatim>\<open>finally\<close> block.\<close>

definition stop_body :: "env \<Rightarrow> world \<Rightarrow> world" where
  "stop_body e w =
     (let w1 = w\<lparr>recording := False\<rparr>;
          w2 = update_indicator indicator_stop_recording w1;
          w3 = cancel_timer w2
      in (case process_audio e w3 of
            (None, w4) \<Rightarrow> cleanup_temp_file e w4
          | (Some msg, w4) \<Rightarrow>
              cleanup_temp_file e
                (logged ERROR ''Full traceback''
                   (logged ERROR (''Error during audio processing: '' @ msg) w4))))"

definition stop_recording_and_transcribe :: "env \<Rightarrow> world \<Rightarrow> world" where
  "stop_recording_and_transcribe e w =
     (if \<not> recording w then logged DEBUG ''stop_recording called with no active recording.'' w
      else stop_body e w)"

text \<open>A run of stop requests, one after the other, each with its own environment.\<close>

fun stop_requests :: "env list \<Rightarrow> world \<Rightarrow> world" where
  "stop_requests [] w = w"
| "stop_requests (e # es) w = stop_requests es (stop_recording_and_transcribe e w)"

text \<open>
  Stop requests on threads of their own (the timer thread and the threads the hotkey
  listener starts). The source takes no lock, so between the test of \<^verbatim>\<open>recording\<close> and
  the assignment that clears it another thread may run. A thread is at the guard, past
  the guard, or has returned; a schedule names the thread that takes the next step. The
  body after the guard is one step here, so the schedules of this model are some of the
  interleavings of the program, not all of them.
\<close>

datatype pc = At_guard | Past_guard | Returned

definition thread_step :: "env \<Rightarrow> pc \<Rightarrow> world \<Rightarrow> pc \<times> world" where
  "thread_step e p w =
     (case p of
        At_guard \<Rightarrow>
          if \<not> recording w
          then (Returned, logged DEBUG ''stop_recording called with no active recording.'' w)
          else (Past_guard, w)
      | Past_guard \<Rightarrow> (Returned, stop_body e w)
      | Returned \<Rightarrow> (Returned, w))"

fun interleaved :: "nat list \<Rightarrow> (pc \<times> env) list \<Rightarrow> world \<Rightarrow> (pc \<times> env) list \<times> world" where
  "interleaved [] threads w = (threads, w)"
| "interleaved (i # schedule) threads w =
     (if i < length threads then
        (case threads ! i of
           (p, e) \<Rightarrow>
             (case thread_step e p w of
                (p1, w1) \<Rightarrow> interleaved schedule (threads[i := (p1, e)]) w1))
      else interleaved schedule threads w)"

text \<open>A run of stream callbacks, one chunk each.\<close>

fun audio_callbacks :: "(audio \<times> string option) list \<Rightarrow> world \<Rightarrow> world" where
  "audio_callbacks [] w = w"
| "audio_callbacks ((indata, status) # cs) w = audio_callbacks cs (audio_callback indata status w)"

text \<open>The monitor thread of the indicator, seen from the world.\<close>

definition monitor :: "timestamp list \<Rightarrow> world \<Rightarrow> world" where
  "monitor ticks w =
     (case visual_indicator w of
        None \<Rightarrow> w
      | Some vi \<Rightarrow>
          (case monitor_recording_time ticks vi of
             (vi1, evs) \<Rightarrow> emit evs (w\<lparr>visual_indicator := Some vi1\<rparr>)))"

subsection \<open>Observations on a trace\<close>

fun is_transcribe :: "event \<Rightarrow> bool" where
  "is_transcribe (Transcribe a) = True"
| "is_transcribe other = False"

fun is_clipboard :: "event \<Rightarrow> bool" where
  "is_clipboard (ClipboardCopy t) = True"
| "is_clipboard PasteHotkey = True"
| "is_clipboard other = False"

fun is_error_notice :: "event \<Rightarrow> bool" where
  "is_error_notice (Notify title message) = (title = ''Error'')"
| "is_error_notice other = False"

text \<open>How often the Whisper model was invoked, and how many clipboard or paste actions ran.\<close>

definition transcription_attempts :: "event list \<Rightarrow> nat" where
  "transcription_attempts evs = length (filter is_transcribe evs)"

definition clipboard_actions :: "event list \<Rightarrow> nat" where
  "clipboard_actions evs = length (filter is_clipboard evs)"

definition error_notices :: "event list \<Rightarrow> nat" where
  "error_notices evs = length (filter is_error_notice evs)"

definition timer_armed :: "world \<Rightarrow> bool" where
  "timer_armed w = (case auto_stop_timer w of None \<Rightarrow> False | Some t \<Rightarrow> is_alive t)"

text \<open>
  The worlds the program can be in: the module's initial globals (with whatever indicator,
  logger and files \<^verbatim>\<open>main\<close> set up), and from there any run of start requests, stop
  requests (from the hotkey or from the timer), stream callbacks and monitor iterations.
\<close>

definition initial_world ::
  "SimpleVisualIndicator option \<Rightarrow> SessionLogger option \<Rightarrow> audio option \<Rightarrow> files \<Rightarrow> world" where
  "initial_world vi lg wav fs =
     \<lparr>recording = False, audio_frames = [], stream = None, auto_stop_timer = None,
      visual_indicator = vi, session_logger = lg, recording_start_time = None,
      temp_wav = wav, log_files = fs, events = []\<rparr>"

inductive reachable :: "world \<Rightarrow> bool" where
  init: "reachable (initial_world vi lg wav fs)"
| start: "reachable w \<Longrightarrow> reachable (start_recording e w)"
| stop: "reachable w \<Longrightarrow> reachable (stop_recording_and_transcribe e w)"
| callback: "reachable w \<Longrightarrow> reachable (audio_callback indata status w)"
| tick: "reachable w \<Longrightarrow> reachable (monitor ticks w)"

subsection \<open>Observations on the session log and sample values\<close>

text \<open>The entries that a call appended to the file \<open>p\<close>, given the files before and after.\<close>

definition appended :: "string \<Rightarrow> files \<Rightarrow> files \<Rightarrow> entry list" where
  "appended p fs fs1 = drop (length (dict_get fs p [])) (dict_get fs1 p [])"

text \<open>A logger as \<^verbatim>\<open>main\<close> creates it, its surroundings when all is well and when the disk fails.\<close>

definition sample_path :: string where
  "sample_path = ''transcription_logs/VoiceToText_Session_stamp.txt''"

definition sample_logger :: SessionLogger where
  "sample_logger =
     \<lparr>log_folder_path = ''transcription_logs'', include_metadata = True,
      session_file_path = Some sample_path, session_start_time = Some 900, recording_count = 0\<rparr>"

definition sample_logger_env :: logger_env where
  "sample_logger_env =
     \<lparr>datetime_now = 1000, strftime_file = (\<lambda>t. ''stamp''), folder_exists = True,
      makedirs = Succeeds, log_io = IoOk\<rparr>"

definition failing_logger_env :: logger_env where
  "failing_logger_env = sample_logger_env\<lparr>log_io := OpenFails ''disk full''\<rparr>"

subsection \<open>Path conditions and sample sessions\<close>

text \<open>One of the three WAV writers succeeds, so \<^verbatim>\<open>wav_saved\<close> ends up true.\<close>

definition wav_writable :: "env \<Rightarrow> bool" where
  "wav_writable e = (soundfile e = SfOk \<or> scipy_write e = Written \<or> wave_write e = Written)"

text \<open>The conditions under which a stop request gets as far as \<^verbatim>\<open>model.transcribe\<close>.\<close>

definition reaches_engine :: "env \<Rightarrow> world \<Rightarrow> bool" where
  "reaches_engine e w =
     (recording w \<and> audio_frames w \<noteq> [] \<and> concatenate e = Succeeds \<and> wav_writable e)"

text \<open>A stretch of the trace without engine call, clipboard copy or paste.\<close>

definition quiet :: "event list \<Rightarrow> bool" where
  "quiet evs = (transcription_attempts evs = 0 \<and> clipboard_actions evs = 0)"

text \<open>The engine returns, and its text is not empty after \<^verbatim>\<open>strip()\<close>.\<close>

definition yields_text :: "env \<Rightarrow> audio \<Rightarrow> bool" where
  "yields_text e a = (case whisper e a of Inl err \<Rightarrow> False
                      | Inr result \<Rightarrow> strip (dict_get result ''text'' []) \<noteq> [])"

text \<open>The clipboard actions of one delivery: the copy, and the paste after a copy.\<close>

definition delivery_actions :: "env \<Rightarrow> nat" where
  "delivery_actions e =
     (if clipboard_copy e = Succeeds then (if paste_hotkey e = Succeeds then 2 else 1) else 0)"

text \<open>
  What one delivery ends with: the exception that reaches the handler of the inner
  \<^verbatim>\<open>try\<close>, if any, and the part of the trace from the copy on.
\<close>

definition delivery_error :: "env \<Rightarrow> string option" where
  "delivery_error e =
     (case clipboard_copy e of
        Raises msg \<Rightarrow> Some msg
      | Succeeds \<Rightarrow> (case paste_hotkey e of Raises msg \<Rightarrow> Some msg | Succeeds \<Rightarrow> None))"

definition delivery_tail :: "env \<Rightarrow> pystr \<Rightarrow> event list" where
  "delivery_tail e txt =
     (case clipboard_copy e of
        Raises msg \<Rightarrow> []
      | Succeeds \<Rightarrow>
          (case paste_hotkey e of
             Raises msg \<Rightarrow> [ClipboardCopy txt]
           | Succeeds \<Rightarrow> [ClipboardCopy txt, PasteHotkey, Log INFO ''Text pasted at cursor.'']))"

text \<open>The two windows the monitor tests the remaining time against.\<close>

definition in_window_30 :: "SimpleVisualIndicator \<Rightarrow> timestamp \<Rightarrow> bool" where
  "in_window_30 self now = (remaining_time self now \<le> 30 \<and> remaining_time self now > 29)"

definition in_window_10 :: "SimpleVisualIndicator \<Rightarrow> timestamp \<Rightarrow> bool" where
  "in_window_10 self now = (remaining_time self now \<le> 10 \<and> remaining_time self now > 9)"

text \<open>The monitor is live: it runs, the indicator records, and the start time is truthy.\<close>

definition monitoring :: "SimpleVisualIndicator \<Rightarrow> bool" where
  "monitoring self = (running self \<and> ind_recording self \<and> truthy_float (start_time self))"

text \<open>
  Sample sessions: the indicator and the world as \<^verbatim>\<open>main\<close> sets them up, an environment
  in which everything works, the world after a start request (capturing, no frame yet)
  and after two chunks of samples (three samples in all).
\<close>

definition sample_indicator :: SimpleVisualIndicator where
  "sample_indicator =
     \<lparr>max_duration_sec = MAX_DURATION_SEC, ind_recording = False, start_time = None,
      running = True, warning_30_shown = False, warning_10_shown = False, has_plyer = True\<rparr>"

definition sample_world :: world where
  "sample_world = initial_world (Some sample_indicator) (Some sample_logger) None Map.empty"

definition sample_env :: env where
  "sample_env =
     \<lparr>clock = 1002, open_stream = Opened, concatenate = Succeeds, soundfile = SfOk,
      scipy_write = Written, wave_write = Written, wav_read = Succeeds,
      whisper = (\<lambda>a. Inr [''text'' \<mapsto> unicode '' hello world'']),
      clipboard_copy = Succeeds, paste_hotkey = Succeeds,
      remove = Succeeds, log_env = sample_logger_env\<rparr>"

definition capturing_world :: world where
  "capturing_world = start_recording (sample_env\<lparr>clock := 1000\<rparr>) sample_world"

definition recorded_world :: world where
  "recorded_world = audio_callbacks [([0.1, 0.2], None), ([0.3], None)] capturing_world"

text \<open>
  Environments in which one thing fails: \<^verbatim>\<open>os.remove\<close>, all three WAV writers, the
  microphone, the Whisper model, the clipboard, the paste hotkey.
\<close>

definition locked_env :: env where
  "locked_env = sample_env\<lparr>remove := Raises ''file is locked''\<rparr>"

definition broken_disk_env :: env where
  "broken_disk_env =
     sample_env\<lparr>soundfile := SfError ''disk full'' None,
                scipy_write := WriteRaises ''disk full'' None,
                wave_write := WriteRaises ''disk full'' None\<rparr>"

definition no_microphone_env :: env where
  "no_microphone_env = sample_env\<lparr>open_stream := CreateFails ''no input device''\<rparr>"

definition failing_model_env :: env where
  "failing_model_env = sample_env\<lparr>whisper := (\<lambda>a. Inl ''out of memory'')\<rparr>"

definition no_clipboard_env :: env where
  "no_clipboard_env = sample_env\<lparr>clipboard_copy := Raises ''no clipboard mechanism''\<rparr>"

definition no_paste_env :: env where
  "no_paste_env = sample_env\<lparr>paste_hotkey := Raises ''no display''\<rparr>"

text \<open>Two stop requests at the guard, as when the timer fires while the hotkey is pressed.\<close>

definition two_stop_threads :: "(pc \<times> env) list" where
  "two_stop_threads = [(At_guard, sample_env), (At_guard, sample_env)]"

text \<open>The indicator after a session started at the clock reading 1000.\<close>

definition started_indicator :: SimpleVisualIndicator where
  "started_indicator = fst (indicator_start_recording 1000 sample_indicator)"

text \<open>
  A monitor whose iterations take 1.01 seconds and whose first iteration after the start
  comes 0.475 seconds late: 1783 iterations, the last one after the 1800 seconds are over.
\<close>

definition late_ticks :: "timestamp list" where
  "late_ticks = map (\<lambda>k. 1000 + 0.475 + 1.01 * real k) [0..<1783]"

text \<open>Iterations one second apart around the two thresholds.\<close>

definition prompt_ticks :: "timestamp list" where
  "prompt_ticks = [2769.5, 2770.5, 2789.5, 2790.5, 2800.5]"

section \<open>Properties\<close>

subsection \<open>The session logger\<close>

lemma append_file_ok:
  "append_file io p es fs = (None, fs1) \<Longrightarrow> appended p fs fs1 = es"
  by (auto simp: append_file_def appended_def dict_get_def split: io_outcome.splits)

lemma log_transcription_True:
  assumes "log_transcription e t d start self fs = (True, self1, fs1, evs)"
    and "session_file_path self = Some p"
  shows "append_file (log_io e) p
           ([Recording_header (case start of None \<Rightarrow> datetime_now e | Some t \<Rightarrow> t)
               (recording_count self + 1)]
            @ (if include_metadata self \<and> truthy_float d
               then (case d of None \<Rightarrow> [] | Some d \<Rightarrow> [Duration_note d])
               else [])
            @ [Newline, Quoted_text t, Rule30]) fs = (None, fs1)"
  using assms
  by (auto simp: log_transcription_def Let_def split: if_splits prod.splits option.splits)

text \<open>
  Claim C9. When the logger has no session file (\<open>session_file_path\<close> is \<open>None\<close>),
  \<open>log_transcription\<close>, \<open>log_error\<close>, \<open>add_session_note\<close> and \<open>close_session\<close> each return
  \<open>False\<close> and leave the logger and every file as they were; only \<open>log_transcription\<close>
  logs a warning. Whenever the file system fails during one of the four calls the call
  returns \<open>False\<close>: the exception is a value inside the method and never its result.
  A failed creation of the session file leaves \<open>session_file_path\<close> at \<open>None\<close>.
\<close>

theorem logger_without_file_is_inert:
  "(session_file_path self = None \<longrightarrow>
      log_transcription e t d start self fs =
        (False, self, fs, [Log WARNING ''No session file available for logging''])
    \<and> log_error e m start self fs = (False, self, fs, [])
    \<and> add_session_note e n self fs = (False, self, fs, [])
    \<and> close_session e self fs = (False, self, fs, []))
   \<and> (log_io e \<noteq> IoOk \<longrightarrow>
      \<not> fst (log_transcription e t d start self fs)
    \<and> \<not> fst (log_error e m start self fs)
    \<and> \<not> fst (add_session_note e n self fs)
    \<and> \<not> fst (close_session e self fs))
   \<and> (\<not> fst (create_session_file e self fs) \<longrightarrow>
        session_file_path (fst (snd (create_session_file e self fs))) = None)"
  by (auto simp: log_transcription_def log_error_def add_session_note_def close_session_def
        create_session_file_def write_session_header_def append_file_def create_file_def
        truthy_str_def logging_def Let_def split: io_outcome.splits option.splits outcome.splits)

theorem logger_without_file_is_inert_witness:
  "session_file_path (sample_logger\<lparr>session_file_path := None\<rparr>) = None
   \<and> log_io failing_logger_env \<noteq> IoOk
   \<and> \<not> fst (create_session_file failing_logger_env (sample_logger\<lparr>session_file_path := None\<rparr>) Map.empty)
   \<and> log_transcription failing_logger_env (unicode ''hello'') (Some 2) (Some 998)
        (sample_logger\<lparr>session_file_path := None\<rparr>) Map.empty =
        (False, sample_logger\<lparr>session_file_path := None\<rparr>, Map.empty,
         [Log WARNING ''No session file available for logging''])
   \<and> log_error failing_logger_env ''Transcription failed'' (Some 998)
        (sample_logger\<lparr>session_file_path := None\<rparr>) Map.empty =
        (False, sample_logger\<lparr>session_file_path := None\<rparr>, Map.empty, [])
   \<and> add_session_note failing_logger_env ''a note''
        (sample_logger\<lparr>session_file_path := None\<rparr>) Map.empty =
        (False, sample_logger\<lparr>session_file_path := None\<rparr>, Map.empty, [])
   \<and> close_session failing_logger_env (sample_logger\<lparr>session_file_path := None\<rparr>) Map.empty =
        (False, sample_logger\<lparr>session_file_path := None\<rparr>, Map.empty, [])
   \<and> \<not> fst (log_transcription failing_logger_env (unicode ''hello'') (Some 2) (Some 998) sample_logger Map.empty)
   \<and> session_file_path (fst (snd (create_session_file failing_logger_env
        (sample_logger\<lparr>session_file_path := None\<rparr>) Map.empty))) = None"
proof -
  have h1: "session_file_path (sample_logger\<lparr>session_file_path := None\<rparr>) = None"
    by simp
  have h2: "log_io failing_logger_env \<noteq> IoOk"
    by (simp add: failing_logger_env_def)
  have h3: "\<not> fst (create_session_file failing_logger_env
                     (sample_logger\<lparr>session_file_path := None\<rparr>) Map.empty)"
    by (simp add: create_session_file_def write_session_header_def failing_logger_env_def
          sample_logger_env_def create_file_def Let_def)
  show ?thesis
    using h1 h2 h3
      logger_without_file_is_inert [of "sample_logger\<lparr>session_file_path := None\<rparr>"
        failing_logger_env "unicode ''hello''" "Some 2" "Some 998" Map.empty "''Transcription failed''"
        "''a note''"]
      logger_without_file_is_inert [of sample_logger failing_logger_env "unicode ''hello''" "Some 2"
        "Some 998" Map.empty "''Transcription failed''" "''a note''"]
    by simp
qed

text \<open>
  Claim C10. For a call of \<open>log_transcription\<close> that returns \<open>True\<close> on a logger with
  metadata enabled, the duration annotation is among the entries the call appended if
  and only if the duration passed in is truthy: it is written for \<open>Some x\<close> with
  \<open>x \<noteq> 0\<close> and left out both for \<open>None\<close> and for a duration of exactly 0.
\<close>

theorem duration_note_iff_truthy:
  assumes "include_metadata self" and "session_file_path self = Some p"
    and "log_transcription e t d start self fs = (True, self1, fs1, evs)"
  shows "(Duration_note x \<in> set (appended p fs fs1)) = (d = Some x \<and> x \<noteq> 0)"
proof -
  let ?hdr = "Recording_header (case start of None \<Rightarrow> datetime_now e | Some t \<Rightarrow> t)
                (recording_count self + 1)"
  note app = append_file_ok[OF log_transcription_True[OF assms(3) assms(2)]]
  show ?thesis
  proof (cases d)
    case None
    from app assms(1) None have "appended p fs fs1 = [?hdr, Newline, Quoted_text t, Rule30]"
      by (simp add: truthy_float_def)
    with None show ?thesis by simp
  next
    case (Some y)
    show ?thesis
    proof (cases "y = 0")
      case True
      from app assms(1) Some True
      have "appended p fs fs1 = [?hdr, Newline, Quoted_text t, Rule30]"
        by (simp add: truthy_float_def)
      with Some True show ?thesis by auto
    next
      case False
      from app assms(1) Some False
      have "appended p fs fs1 = [?hdr, Duration_note y, Newline, Quoted_text t, Rule30]"
        by (simp add: truthy_float_def)
      with Some False show ?thesis by auto
    qed
  qed
qed

theorem duration_note_iff_truthy_witness:
  "include_metadata sample_logger \<and> session_file_path sample_logger = Some sample_path
   \<and> fst (log_transcription sample_logger_env (unicode ''hello'') (Some 0) (Some 998) sample_logger Map.empty)
   \<and> Duration_note 0 \<notin> set (appended sample_path Map.empty
        (fst (snd (snd (log_transcription sample_logger_env (unicode ''hello'') (Some 0) (Some 998)
                          sample_logger Map.empty)))))
   \<and> fst (log_transcription sample_logger_env (unicode ''hello'') (Some 2) (Some 998) sample_logger Map.empty)
   \<and> Duration_note 2 \<in> set (appended sample_path Map.empty
        (fst (snd (snd (log_transcription sample_logger_env (unicode ''hello'') (Some 2) (Some 998)
                          sample_logger Map.empty)))))"
proof -
  let ?r0 = "log_transcription sample_logger_env (unicode ''hello'') (Some 0) (Some 998) sample_logger Map.empty"
  let ?r2 = "log_transcription sample_logger_env (unicode ''hello'') (Some 2) (Some 998) sample_logger Map.empty"
  have h1: "include_metadata sample_logger"
    by (simp add: sample_logger_def)
  have h2: "session_file_path sample_logger = Some sample_path"
    by (simp add: sample_logger_def)
  have t0: "fst ?r0"
    by (simp add: log_transcription_def sample_logger_def sample_logger_env_def sample_path_def
          truthy_str_def truthy_float_def append_file_def Let_def)
  have t2: "fst ?r2"
    by (simp add: log_transcription_def sample_logger_def sample_logger_env_def sample_path_def
          truthy_str_def truthy_float_def append_file_def Let_def)
  have e0: "?r0 = (True, fst (snd ?r0), fst (snd (snd ?r0)), snd (snd (snd ?r0)))"
    using t0 by (cases ?r0) simp
  have e2: "?r2 = (True, fst (snd ?r2), fst (snd (snd ?r2)), snd (snd (snd ?r2)))"
    using t2 by (cases ?r2) simp
  show ?thesis
    using h1 h2 t0 t2
      duration_note_iff_truthy [OF h1 h2 e0, of 0]
      duration_note_iff_truthy [OF h1 h2 e2, of 2]
    by simp
qed

subsection \<open>Counting on the trace; what each step leaves alone\<close>

lemma attempts_append [simp]:
  "transcription_attempts (xs @ ys) = transcription_attempts xs + transcription_attempts ys"
  by (simp add: transcription_attempts_def)

lemma clipboard_append [simp]:
  "clipboard_actions (xs @ ys) = clipboard_actions xs + clipboard_actions ys"
  by (simp add: clipboard_actions_def)

lemma quiet_Nil [simp]: "quiet []"
  by (simp add: quiet_def transcription_attempts_def clipboard_actions_def)

lemma quiet_append [simp]: "quiet (xs @ ys) = (quiet xs \<and> quiet ys)"
  by (auto simp: quiet_def)

lemma quiet_logging [simp]: "quiet (logging lvl msg)"
  by (simp add: quiet_def logging_def transcription_attempts_def clipboard_actions_def)

lemma quiet_show_notification [simp]: "quiet (show_notification vi title msg)"
  by (simp add: quiet_def show_notification_def transcription_attempts_def clipboard_actions_def)

lemma quiet_with_text [simp]:
  "quiet (logging_text lvl msg t)" "quiet (show_notification_text vi title t)"
  by (simp_all add: quiet_def logging_text_def show_notification_text_def
        transcription_attempts_def clipboard_actions_def)

lemma emit_fields [simp]:
  "recording (emit evs w) = recording w"
  "audio_frames (emit evs w) = audio_frames w"
  "stream (emit evs w) = stream w"
  "auto_stop_timer (emit evs w) = auto_stop_timer w"
  "visual_indicator (emit evs w) = visual_indicator w"
  "session_logger (emit evs w) = session_logger w"
  "recording_start_time (emit evs w) = recording_start_time w"
  "temp_wav (emit evs w) = temp_wav w"
  "log_files (emit evs w) = log_files w"
  "events (emit evs w) = events w @ evs"
  by (simp_all add: emit_def)

lemma logged_fields [simp]:
  "recording (logged lvl msg w) = recording w"
  "audio_frames (logged lvl msg w) = audio_frames w"
  "stream (logged lvl msg w) = stream w"
  "auto_stop_timer (logged lvl msg w) = auto_stop_timer w"
  "visual_indicator (logged lvl msg w) = visual_indicator w"
  "session_logger (logged lvl msg w) = session_logger w"
  "recording_start_time (logged lvl msg w) = recording_start_time w"
  "temp_wav (logged lvl msg w) = temp_wav w"
  "log_files (logged lvl msg w) = log_files w"
  "events (logged lvl msg w) = events w @ logging lvl msg"
  by (simp_all add: logged_def)

lemma logged_DEBUG [simp]: "logged DEBUG msg w = w"
  by (simp add: logged_def logging_def emit_def)

lemma update_indicator_fields [simp]:
  "recording (update_indicator m w) = recording w"
  "audio_frames (update_indicator m w) = audio_frames w"
  "stream (update_indicator m w) = stream w"
  "auto_stop_timer (update_indicator m w) = auto_stop_timer w"
  "session_logger (update_indicator m w) = session_logger w"
  "recording_start_time (update_indicator m w) = recording_start_time w"
  "temp_wav (update_indicator m w) = temp_wav w"
  "log_files (update_indicator m w) = log_files w"
  by (simp_all add: update_indicator_def split: option.splits prod.splits)

lemma tell_indicator_fields [simp]:
  "recording (tell_indicator m w) = recording w"
  "audio_frames (tell_indicator m w) = audio_frames w"
  "stream (tell_indicator m w) = stream w"
  "auto_stop_timer (tell_indicator m w) = auto_stop_timer w"
  "visual_indicator (tell_indicator m w) = visual_indicator w"
  "session_logger (tell_indicator m w) = session_logger w"
  "recording_start_time (tell_indicator m w) = recording_start_time w"
  "temp_wav (tell_indicator m w) = temp_wav w"
  "log_files (tell_indicator m w) = log_files w"
  by (simp_all add: tell_indicator_def update_indicator_def split: option.splits)

lemma call_logger_fields [simp]:
  "recording (call_logger m w) = recording w"
  "audio_frames (call_logger m w) = audio_frames w"
  "stream (call_logger m w) = stream w"
  "auto_stop_timer (call_logger m w) = auto_stop_timer w"
  "visual_indicator (call_logger m w) = visual_indicator w"
  "recording_start_time (call_logger m w) = recording_start_time w"
  "temp_wav (call_logger m w) = temp_wav w"
  by (simp_all add: call_logger_def split: option.splits prod.splits)

text \<open>The events a step added: the trace only grows.\<close>

lemma update_indicator_events:
  "\<exists>evs. events (update_indicator m w) = events w @ evs
         \<and> (visual_indicator w = None \<longrightarrow> evs = [])
         \<and> (\<forall>vi. visual_indicator w = Some vi \<longrightarrow> evs = snd (m vi))"
  by (auto simp: update_indicator_def ENABLE_VISUAL_INDICATORS_def split: option.splits prod.splits)

lemma update_indicator_quiet:
  assumes "\<And>vi. quiet (snd (m vi))"
  shows "\<exists>evs. events (update_indicator m w) = events w @ evs \<and> quiet evs"
  using update_indicator_events[of m w] assms by (cases "visual_indicator w") auto

lemma tell_indicator_quiet:
  assumes "\<And>vi. quiet (m vi)"
  shows "\<exists>evs. events (tell_indicator m w) = events w @ evs \<and> quiet evs"
  unfolding tell_indicator_def using assms by (intro update_indicator_quiet) simp

lemma logger_methods_quiet:
  "quiet (snd (snd (snd (log_transcription le t d s lg fs))))"
  "quiet (snd (snd (snd (log_error le m s lg fs))))"
  by (auto simp: log_transcription_def log_error_def Let_def split: prod.splits option.splits)

lemma call_logger_quiet:
  assumes "\<And>lg fs. quiet (snd (snd (snd (m lg fs))))"
  shows "\<exists>evs. events (call_logger m w) = events w @ evs \<and> quiet evs"
proof (cases "session_logger w")
  case None
  then show ?thesis by (simp add: call_logger_def)
next
  case (Some lg)
  obtain b lg1 fs1 evs where r: "m lg (log_files w) = (b, lg1, fs1, evs)"
    by (cases "m lg (log_files w)") auto
  with assms[of lg "log_files w"] have "quiet evs" by simp
  with Some r show ?thesis
    by (simp add: call_logger_def ENABLE_SESSION_LOGGING_def)
qed

lemma quiet_counts:
  "quiet evs \<Longrightarrow> transcription_attempts evs = 0"
  "quiet evs \<Longrightarrow> clipboard_actions evs = 0"
  by (simp_all add: quiet_def)

lemma indicator_methods_quiet [simp]:
  "quiet (snd (indicator_stop_recording vi))"
  "quiet (snd (indicator_start_recording now vi))"
  "quiet (transcription_complete t vi)"
  "quiet (show_error m vi)"
  by (simp_all add: indicator_stop_recording_def indicator_start_recording_def
        transcription_complete_def show_error_def Let_def)

lemma counts_update_indicator [simp]:
  assumes "\<And>vi. quiet (snd (m vi))"
  shows "transcription_attempts (events (update_indicator m w)) = transcription_attempts (events w)"
    and "clipboard_actions (events (update_indicator m w)) = clipboard_actions (events w)"
  using update_indicator_quiet[of m w, OF assms] by (auto simp: quiet_def)

lemma counts_tell_indicator [simp]:
  assumes "\<And>vi. quiet (m vi)"
  shows "transcription_attempts (events (tell_indicator m w)) = transcription_attempts (events w)"
    and "clipboard_actions (events (tell_indicator m w)) = clipboard_actions (events w)"
  using tell_indicator_quiet[of m w, OF assms] by (auto simp: quiet_def)

lemma counts_call_logger [simp]:
  assumes "\<And>lg fs. quiet (snd (snd (snd (m lg fs))))"
  shows "transcription_attempts (events (call_logger m w)) = transcription_attempts (events w)"
    and "clipboard_actions (events (call_logger m w)) = clipboard_actions (events w)"
  using call_logger_quiet[of m w, OF assms] by (auto simp: quiet_def)

lemma counts_logging [simp]:
  "transcription_attempts (logging lvl msg) = 0" "clipboard_actions (logging lvl msg) = 0"
  using quiet_logging[of lvl msg] by (simp_all add: quiet_def)

lemma counts_Nil [simp]:
  "transcription_attempts [] = 0" "clipboard_actions [] = 0"
  by (simp_all add: transcription_attempts_def clipboard_actions_def)

lemma counts_Cons [simp]:
  "transcription_attempts (x # xs) = (if is_transcribe x then 1 else 0) + transcription_attempts xs"
  "clipboard_actions (x # xs) = (if is_clipboard x then 1 else 0) + clipboard_actions xs"
  by (simp_all add: transcription_attempts_def clipboard_actions_def)

lemma deliver_text_counts [simp]:
  "transcription_attempts (events (snd (deliver_text e t w))) = transcription_attempts (events w)"
  "clipboard_actions (events (snd (deliver_text e t w))) =
     clipboard_actions (events w) + delivery_actions e"
  by (simp_all add: deliver_text_def Let_def logger_methods_quiet delivery_actions_def
        quiet_counts split: outcome.splits)

lemma no_speech_counts [simp]:
  "transcription_attempts (events (no_speech e w)) = transcription_attempts (events w)"
  "clipboard_actions (events (no_speech e w)) = clipboard_actions (events w)"
  by (simp_all add: no_speech_def Let_def logger_methods_quiet)

lemma transcription_failed_counts [simp]:
  "transcription_attempts (events (transcription_failed e err w)) = transcription_attempts (events w)"
  "clipboard_actions (events (transcription_failed e err w)) = clipboard_actions (events w)"
  by (simp_all add: transcription_failed_def Let_def logger_methods_quiet)

lemma transcribe_audio_counts:
  "transcription_attempts (events (transcribe_audio e a w)) = transcription_attempts (events w) + 1"
  "clipboard_actions (events (transcribe_audio e a w)) =
     clipboard_actions (events w) + (if yields_text e a then delivery_actions e else 0)"
  by (simp_all add: transcribe_audio_def yields_text_def Let_def case_prod_unfold
        split: sum.splits option.splits)

lemma deliver_text_fields [simp]:
  "recording (snd (deliver_text e t w)) = recording w"
  "audio_frames (snd (deliver_text e t w)) = audio_frames w"
  "temp_wav (snd (deliver_text e t w)) = temp_wav w"
  "auto_stop_timer (snd (deliver_text e t w)) = auto_stop_timer w"
  "stream (snd (deliver_text e t w)) = stream w"
  "visual_indicator (snd (deliver_text e t w)) = visual_indicator w"
  "recording_start_time (snd (deliver_text e t w)) = recording_start_time w"
  by (simp_all add: deliver_text_def Let_def split: outcome.splits)

lemma no_speech_fields [simp]:
  "recording (no_speech e w) = recording w"
  "audio_frames (no_speech e w) = audio_frames w"
  "temp_wav (no_speech e w) = temp_wav w"
  "auto_stop_timer (no_speech e w) = auto_stop_timer w"
  "stream (no_speech e w) = stream w"
  by (simp_all add: no_speech_def Let_def)

lemma transcription_failed_fields [simp]:
  "recording (transcription_failed e err w) = recording w"
  "audio_frames (transcription_failed e err w) = audio_frames w"
  "temp_wav (transcription_failed e err w) = temp_wav w"
  "auto_stop_timer (transcription_failed e err w) = auto_stop_timer w"
  "stream (transcription_failed e err w) = stream w"
  by (simp_all add: transcription_failed_def Let_def)

lemma transcribe_audio_fields [simp]:
  "recording (transcribe_audio e a w) = recording w"
  "audio_frames (transcribe_audio e a w) = audio_frames w"
  "temp_wav (transcribe_audio e a w) = temp_wav w"
  "auto_stop_timer (transcribe_audio e a w) = auto_stop_timer w"
  "stream (transcribe_audio e a w) = stream w"
  by (simp_all add: transcribe_audio_def Let_def case_prod_unfold split: sum.splits option.splits)

lemma leave_partial_fields [simp]:
  "recording (leave_partial left w) = recording w"
  "audio_frames (leave_partial left w) = audio_frames w"
  "auto_stop_timer (leave_partial left w) = auto_stop_timer w"
  "stream (leave_partial left w) = stream w"
  "session_logger (leave_partial left w) = session_logger w"
  "log_files (leave_partial left w) = log_files w"
  "visual_indicator (leave_partial left w) = visual_indicator w"
  "recording_start_time (leave_partial left w) = recording_start_time w"
  "events (leave_partial left w) = events w"
  by (simp_all add: leave_partial_def split: option.splits)

lemma save_wav_result:
  "fst (save_wav e a w) = wav_writable e"
  "wav_writable e \<Longrightarrow> temp_wav (snd (save_wav e a w)) = Some a"
  by (auto simp: save_wav_def wav_writable_def Let_def
        split: sf_outcome.splits write_outcome.splits prod.splits)

lemma save_wav_fields [simp]:
  "recording (snd (save_wav e a w)) = recording w"
  "audio_frames (snd (save_wav e a w)) = audio_frames w"
  "auto_stop_timer (snd (save_wav e a w)) = auto_stop_timer w"
  "stream (snd (save_wav e a w)) = stream w"
  "session_logger (snd (save_wav e a w)) = session_logger w"
  "log_files (snd (save_wav e a w)) = log_files w"
  "visual_indicator (snd (save_wav e a w)) = visual_indicator w"
  "recording_start_time (snd (save_wav e a w)) = recording_start_time w"
  "transcription_attempts (events (snd (save_wav e a w))) = transcription_attempts (events w)"
  "clipboard_actions (events (snd (save_wav e a w))) = clipboard_actions (events w)"
  by (auto simp: save_wav_def Let_def split: sf_outcome.splits write_outcome.splits prod.splits)

lemma process_audio_counts:
  "transcription_attempts (events (snd (process_audio e w))) =
     transcription_attempts (events w)
     + (if audio_frames w \<noteq> [] \<and> concatenate e = Succeeds \<and> wav_writable e then 1 else 0)"
  "clipboard_actions (events (snd (process_audio e w))) =
     clipboard_actions (events w)
     + (if audio_frames w \<noteq> [] \<and> concatenate e = Succeeds \<and> wav_writable e
           \<and> yields_text e (concat (audio_frames w)) then delivery_actions e else 0)"
  by (auto simp: process_audio_def Let_def case_prod_unfold save_wav_result transcribe_audio_counts
        split: option.splits outcome.splits)

lemma process_audio_fields [simp]:
  "recording (snd (process_audio e w)) = recording w"
  "audio_frames (snd (process_audio e w)) = audio_frames w"
  "auto_stop_timer (snd (process_audio e w)) = auto_stop_timer w"
  "stream (snd (process_audio e w)) = None"
  by (auto simp: process_audio_def Let_def case_prod_unfold split: option.splits outcome.splits)

lemma cleanup_temp_file_fields [simp]:
  "recording (cleanup_temp_file e w) = recording w"
  "audio_frames (cleanup_temp_file e w) = audio_frames w"
  "auto_stop_timer (cleanup_temp_file e w) = auto_stop_timer w"
  "stream (cleanup_temp_file e w) = stream w"
  "session_logger (cleanup_temp_file e w) = session_logger w"
  "log_files (cleanup_temp_file e w) = log_files w"
  "visual_indicator (cleanup_temp_file e w) = visual_indicator w"
  "transcription_attempts (events (cleanup_temp_file e w)) = transcription_attempts (events w)"
  "clipboard_actions (events (cleanup_temp_file e w)) = clipboard_actions (events w)"
  by (auto simp: cleanup_temp_file_def split: outcome.splits)

lemma cleanup_temp_file_removes:
  "remove e = Succeeds \<Longrightarrow> temp_wav (cleanup_temp_file e w) = None"
  by (auto simp: cleanup_temp_file_def)

lemma cancel_timer_fields [simp]:
  "recording (cancel_timer w) = recording w"
  "audio_frames (cancel_timer w) = audio_frames w"
  "stream (cancel_timer w) = stream w"
  "events (cancel_timer w) = events w"
  "temp_wav (cancel_timer w) = temp_wav w"
  "\<not> timer_armed (cancel_timer w)"
  by (auto simp: cancel_timer_def timer_armed_def split: option.splits)

lemma stop_when_idle: "\<not> recording w \<Longrightarrow> stop_recording_and_transcribe e w = w"
  by (simp add: stop_recording_and_transcribe_def)

lemma stop_when_recording: "recording w \<Longrightarrow> stop_recording_and_transcribe e w = stop_body e w"
  by (simp add: stop_recording_and_transcribe_def)

lemma stop_body_clears_recording [simp]: "\<not> recording (stop_body e w)"
  by (cases "process_audio e (cancel_timer (update_indicator indicator_stop_recording (w\<lparr>recording := False\<rparr>)))")
     (auto simp: stop_body_def Let_def split: option.splits
        dest: arg_cong[where f="\<lambda>p. recording (snd p)"])

lemma stop_clears_recording [simp]: "\<not> recording (stop_recording_and_transcribe e w)"
  by (cases "recording w") (simp_all add: stop_when_idle stop_when_recording)

text \<open>The body counts whether or not the flag is still set when it runs.\<close>

lemma stop_body_counts:
  "transcription_attempts (events (stop_body e w)) =
     transcription_attempts (events w)
     + (if audio_frames w \<noteq> [] \<and> concatenate e = Succeeds \<and> wav_writable e then 1 else 0)"
  "clipboard_actions (events (stop_body e w)) =
     clipboard_actions (events w)
     + (if audio_frames w \<noteq> [] \<and> concatenate e = Succeeds \<and> wav_writable e
           \<and> yields_text e (concat (audio_frames w)) then delivery_actions e else 0)"
proof -
  let ?w3 = "cancel_timer (update_indicator indicator_stop_recording (w\<lparr>recording := False\<rparr>))"
  obtain r w4 where p: "process_audio e ?w3 = (r, w4)" by (cases "process_audio e ?w3") auto
  have a: "transcription_attempts (events ?w3) = transcription_attempts (events w)"
    and c: "clipboard_actions (events ?w3) = clipboard_actions (events w)"
    and f: "audio_frames ?w3 = audio_frames w"
    by simp_all
  show "transcription_attempts (events (stop_body e w)) =
     transcription_attempts (events w)
     + (if audio_frames w \<noteq> [] \<and> concatenate e = Succeeds \<and> wav_writable e then 1 else 0)"
    using p a f process_audio_counts(1)[of e ?w3]
    by (cases r) (auto simp: stop_body_def Let_def)
  show "clipboard_actions (events (stop_body e w)) =
     clipboard_actions (events w)
     + (if audio_frames w \<noteq> [] \<and> concatenate e = Succeeds \<and> wav_writable e
           \<and> yields_text e (concat (audio_frames w)) then delivery_actions e else 0)"
    using p c f process_audio_counts(2)[of e ?w3]
    by (cases r) (auto simp: stop_body_def Let_def)
qed

lemma stop_counts:
  "transcription_attempts (events (stop_recording_and_transcribe e w)) =
     transcription_attempts (events w) + (if reaches_engine e w then 1 else 0)"
  "clipboard_actions (events (stop_recording_and_transcribe e w)) =
     clipboard_actions (events w)
     + (if reaches_engine e w \<and> yields_text e (concat (audio_frames w))
        then delivery_actions e else 0)"
  by (cases "recording w";
      simp add: stop_when_idle stop_when_recording stop_body_counts reaches_engine_def)+

lemma stop_requests_idle: "\<not> recording w \<Longrightarrow> stop_requests es w = w"
  by (induction es arbitrary: w) (simp_all add: stop_when_idle)

subsection \<open>The stream callback, the stop guard and the cleanup\<close>

lemma audio_callback_fields [simp]:
  "recording (audio_callback c s w) = recording w"
  "auto_stop_timer (audio_callback c s w) = auto_stop_timer w"
  "audio_frames (audio_callback c s w) = (if recording w then audio_frames w @ [c] else audio_frames w)"
  by (auto simp: audio_callback_def Let_def split: option.splits)

lemma audio_callbacks_idle:
  "\<not> recording w \<Longrightarrow> audio_frames (audio_callbacks cs w) = audio_frames w"
  by (induction cs arbitrary: w) auto

text \<open>
  Claim C4. The stream callback appends the delivered chunk to \<open>audio_frames\<close> if and
  only if the recording flag is set, and leaves the buffer unchanged otherwise. After any
  stop request every chunk delivered later is dropped, whatever the number of callbacks.
\<close>

theorem chunk_appended_iff_recording:
  "((audio_frames (audio_callback indata status w) = audio_frames w @ [indata]) = recording w)
   \<and> (\<not> recording w \<longrightarrow> audio_frames (audio_callback indata status w) = audio_frames w)
   \<and> audio_frames (audio_callbacks cs (stop_recording_and_transcribe e w)) =
       audio_frames (stop_recording_and_transcribe e w)"
  by (simp add: audio_callbacks_idle)

lemma stop_body_keeps_frames [simp]: "audio_frames (stop_body e w) = audio_frames w"
proof -
  let ?w3 = "cancel_timer (update_indicator indicator_stop_recording (w\<lparr>recording := False\<rparr>))"
  obtain x w4 where p: "process_audio e ?w3 = (x, w4)" by (cases "process_audio e ?w3") auto
  then have "audio_frames w4 = audio_frames ?w3"
    using process_audio_fields(2)[of e ?w3] by simp
  with p show ?thesis
    by (cases x) (simp_all add: stop_body_def Let_def)
qed

text \<open>Two threads whose stop requests do not overlap are two stop requests in a row.\<close>

lemma serial_schedule:
  "snd (interleaved [0, 0, 1, 1] [(At_guard, e1), (At_guard, e2)] w) = stop_requests [e1, e2] w"
  by (cases "recording w") (simp_all add: thread_step_def stop_when_idle stop_when_recording)

text \<open>Two threads that both test the flag before either clears it both run the body.\<close>

lemma overlapping_schedule:
  assumes "recording w"
  shows "map fst (fst (interleaved [0, 1] [(At_guard, e1), (At_guard, e2)] w)) = [Past_guard, Past_guard]"
    and "snd (interleaved [0, 1, 0, 1] [(At_guard, e1), (At_guard, e2)] w) = stop_body e2 (stop_body e1 w)"
  using assms by (simp_all add: thread_step_def)


lemma cleanup_temp_file_left:
  "temp_wav (cleanup_temp_file e w) \<noteq> None \<Longrightarrow>
     \<exists>msg. remove e = Raises msg
       \<and> Log WARNING (''Could not remove temp file: '' @ msg) \<in> set (events (cleanup_temp_file e w))"
  by (auto simp: cleanup_temp_file_def logging_def split: outcome.splits if_splits)

text \<open>
  Claim C3 (as amended). For every stop request that passes the guard the
  \<^verbatim>\<open>finally\<close> block runs on every exit path. When \<^verbatim>\<open>os.remove\<close> does not raise, the
  artifact does not exist afterwards. An artifact that still exists afterwards means
  that \<^verbatim>\<open>os.remove\<close> raised, and then the warning \<open>Could not remove temp file\<close> with
  its message is in the trace.
\<close>

theorem artifact_removed_unless_remove_raises:
  assumes "recording w"
  shows "(remove e = Succeeds \<longrightarrow> temp_wav (stop_recording_and_transcribe e w) = None)
     \<and> (temp_wav (stop_recording_and_transcribe e w) \<noteq> None \<longrightarrow>
          (\<exists>msg. remove e = Raises msg
             \<and> Log WARNING (''Could not remove temp file: '' @ msg)
                 \<in> set (events (stop_recording_and_transcribe e w))))"
proof -
  let ?w3 = "cancel_timer (update_indicator indicator_stop_recording (w\<lparr>recording := False\<rparr>))"
  obtain r w4 where p: "process_audio e ?w3 = (r, w4)" by (cases "process_audio e ?w3") auto
  show ?thesis
  proof (cases r)
    case None
    with p assms have "stop_recording_and_transcribe e w = cleanup_temp_file e w4"
      by (simp add: stop_recording_and_transcribe_def stop_body_def Let_def)
    then show ?thesis
      using cleanup_temp_file_removes[of e w4] cleanup_temp_file_left[of e w4] by auto
  next
    case (Some msg)
    let ?w5 = "logged ERROR ''Full traceback'' (logged ERROR (''Error during audio processing: '' @ msg) w4)"
    from Some p assms have "stop_recording_and_transcribe e w = cleanup_temp_file e ?w5"
      by (simp add: stop_recording_and_transcribe_def stop_body_def Let_def)
    then show ?thesis
      using cleanup_temp_file_removes[of e ?w5] cleanup_temp_file_left[of e ?w5] by auto
  qed
qed

lemma update_indicator_events_eq:
  "events (update_indicator m w) =
     events w @ (case visual_indicator w of None \<Rightarrow> [] | Some vi \<Rightarrow> snd (m vi))"
  by (auto simp: update_indicator_def ENABLE_VISUAL_INDICATORS_def split: option.splits prod.splits)

text \<open>
  Claim C2. When stop is processed on a capturing session whose buffer is empty, the
  recording flag is cleared, the engine is not invoked, no clipboard or paste action
  runs, the session logger and its files are untouched, and the trace grows by exactly
  the indicator's stop notification, the warning \<open>No audio data recorded.\<close> and, when a
  leftover artifact could not be removed, the warning of the cleanup.
\<close>

theorem empty_buffer_skips_transcription:
  assumes "recording w" and "audio_frames w = []"
  shows "\<not> recording (stop_recording_and_transcribe e w)
     \<and> transcription_attempts (events (stop_recording_and_transcribe e w)) =
         transcription_attempts (events w)
     \<and> clipboard_actions (events (stop_recording_and_transcribe e w)) =
         clipboard_actions (events w)
     \<and> events (stop_recording_and_transcribe e w) =
         events w
         @ (case visual_indicator w of None \<Rightarrow> [] | Some vi \<Rightarrow> snd (indicator_stop_recording vi))
         @ [Log WARNING ''No audio data recorded.'']
         @ (case temp_wav w of
              None \<Rightarrow> []
            | Some a \<Rightarrow>
                (case remove e of
                   Succeeds \<Rightarrow> []
                 | Raises msg \<Rightarrow> [Log WARNING (''Could not remove temp file: '' @ msg)]))
     \<and> session_logger (stop_recording_and_transcribe e w) = session_logger w
     \<and> log_files (stop_recording_and_transcribe e w) = log_files w"
proof -
  let ?w3 = "cancel_timer (update_indicator indicator_stop_recording (w\<lparr>recording := False\<rparr>))"
  have f: "audio_frames ?w3 = []" using assms(2) by simp
  have p: "process_audio e ?w3 =
             (None, logged WARNING ''No audio data recorded.''
                      (case stream ?w3 of None \<Rightarrow> ?w3 | Some s \<Rightarrow> ?w3\<lparr>stream := None\<rparr>))"
    using f by (simp add: process_audio_def Let_def split: option.splits)
  have s: "stop_recording_and_transcribe e w =
             cleanup_temp_file e (logged WARNING ''No audio data recorded.''
                      (case stream ?w3 of None \<Rightarrow> ?w3 | Some s \<Rightarrow> ?w3\<lparr>stream := None\<rparr>))"
    using assms(1) p by (simp add: stop_recording_and_transcribe_def stop_body_def Let_def)
  have c: "transcription_attempts (events (stop_recording_and_transcribe e w)) =
             transcription_attempts (events w)"
          "clipboard_actions (events (stop_recording_and_transcribe e w)) = clipboard_actions (events w)"
    using assms by (simp_all add: stop_counts reaches_engine_def)
  have ev: "events (stop_recording_and_transcribe e w) =
         events w
         @ (case visual_indicator w of None \<Rightarrow> [] | Some vi \<Rightarrow> snd (indicator_stop_recording vi))
         @ [Log WARNING ''No audio data recorded.'']
         @ (case temp_wav w of
              None \<Rightarrow> []
            | Some a \<Rightarrow>
                (case remove e of
                   Succeeds \<Rightarrow> []
                 | Raises msg \<Rightarrow> [Log WARNING (''Could not remove temp file: '' @ msg)]))"
    unfolding s
    by (auto simp: cleanup_temp_file_def update_indicator_events_eq logging_def
          split: option.splits outcome.splits)
  have l: "session_logger (stop_recording_and_transcribe e w) = session_logger w"
          "log_files (stop_recording_and_transcribe e w) = log_files w"
    unfolding s by (auto simp: cancel_timer_def split: option.splits)
  show ?thesis using c ev l by simp
qed

subsection \<open>Delivery of a transcript\<close>

lemma call_logger_events_eq:
  "events (call_logger m w) =
     events w @ (case session_logger w of None \<Rightarrow> [] | Some lg \<Rightarrow> snd (snd (snd (m lg (log_files w)))))"
  by (auto simp: call_logger_def ENABLE_SESSION_LOGGING_def split: option.splits prod.splits)

lemma call_logger_result:
  "session_logger (call_logger m w) =
     (case session_logger w of None \<Rightarrow> None | Some lg \<Rightarrow> Some (fst (snd (m lg (log_files w)))))"
  "log_files (call_logger m w) =
     (case session_logger w of None \<Rightarrow> log_files w | Some lg \<Rightarrow> fst (snd (snd (m lg (log_files w)))))"
  by (auto simp: call_logger_def ENABLE_SESSION_LOGGING_def split: option.splits prod.splits)

lemma tell_indicator_events_eq:
  "events (tell_indicator m w) =
     events w @ (case visual_indicator w of None \<Rightarrow> [] | Some vi \<Rightarrow> m vi)"
  by (auto simp: tell_indicator_def update_indicator_def ENABLE_VISUAL_INDICATORS_def
        split: option.splits)

lemma logged_derived [simp]:
  "measured_duration e (logged lvl msg w) = measured_duration e w"
  "start_datetime (logged lvl msg w) = start_datetime w"
  by (simp_all add: measured_duration_def start_datetime_def)

lemma emit_derived [simp]:
  "measured_duration e (emit evs w) = measured_duration e w"
  "start_datetime (emit evs w) = start_datetime w"
  by (simp_all add: measured_duration_def start_datetime_def)

lemma derived_cong:
  "recording_start_time w1 = recording_start_time w \<Longrightarrow> measured_duration e w1 = measured_duration e w"
  "recording_start_time w1 = recording_start_time w \<Longrightarrow> start_datetime w1 = start_datetime w"
  by (simp_all add: measured_duration_def start_datetime_def)

lemma deliver_text_result:
  "fst (deliver_text e txt w) = delivery_error e"
  "events (snd (deliver_text e txt w)) =
     events w @ [Log_text INFO ''Transcription: '' txt]
     @ (case session_logger w of
          None \<Rightarrow> []
        | Some lg \<Rightarrow> snd (snd (snd (log_transcription (log_env e) txt (measured_duration e w)
                                      (start_datetime w) lg (log_files w)))))
     @ (case visual_indicator w of None \<Rightarrow> [] | Some vi \<Rightarrow> transcription_complete txt vi)
     @ delivery_tail e txt"
  by (simp_all add: deliver_text_def Let_def call_logger_events_eq tell_indicator_events_eq
        logging_def logging_text_def delivery_error_def delivery_tail_def
        split: option.splits outcome.splits)

lemma deliver_text_logger:
  "session_logger (snd (deliver_text e txt w)) =
     (case session_logger w of
        None \<Rightarrow> None
      | Some lg \<Rightarrow> Some (fst (snd (log_transcription (log_env e) txt (measured_duration e w)
                                    (start_datetime w) lg (log_files w)))))"
  "log_files (snd (deliver_text e txt w)) =
     (case session_logger w of
        None \<Rightarrow> log_files w
      | Some lg \<Rightarrow> fst (snd (snd (log_transcription (log_env e) txt (measured_duration e w)
                                    (start_datetime w) lg (log_files w)))))"
  by (simp_all add: deliver_text_def Let_def call_logger_result split: option.splits outcome.splits)

lemma save_wav_events:
  "\<exists>evs. quiet evs \<and> events (snd (save_wav e a w)) = events w @ evs"
  by (auto simp: save_wav_def Let_def split: sf_outcome.splits write_outcome.splits prod.splits)

lemma quiet_Cons_Log [simp]: "quiet (Log lvl msg # evs) = quiet evs"
  by (simp add: quiet_def)

lemma process_audio_reaches:
  assumes "audio_frames w \<noteq> []" and "concatenate e = Succeeds" and "wav_writable e"
  shows "\<exists>w6 pre. process_audio e w = (None, transcribe_audio e (concat (audio_frames w)) w6)
           \<and> session_logger w6 = session_logger w \<and> log_files w6 = log_files w
           \<and> visual_indicator w6 = visual_indicator w
           \<and> recording_start_time w6 = recording_start_time w
           \<and> quiet pre \<and> events w6 = events w @ pre"
proof -
  let ?w1 = "case stream w of None \<Rightarrow> w | Some s \<Rightarrow> w\<lparr>stream := None\<rparr>"
  let ?w2 = "logged INFO ''Captured audio frames'' (logged INFO ''Processing audio...'' ?w1)"
  let ?w3 = "logged INFO ''Saving audio'' (logged INFO ''Audio array shape'' ?w2)"
  let ?a = "concat (audio_frames w)"
  let ?w4 = "snd (save_wav e ?a ?w3)"
  let ?w5 = "logged INFO ''WAV file verified'' ?w4"
  let ?w6 = "case wav_read e of Succeeds \<Rightarrow> logged INFO ''WAV file readable'' ?w5
             | Raises msg \<Rightarrow> logged WARNING (''WAV file read test failed: '' @ msg) ?w5"
  have f1: "audio_frames ?w1 = audio_frames w" by (simp split: option.splits)
  have e1: "events ?w1 = events w" by (simp split: option.splits)
  have p: "process_audio e w = (None, transcribe_audio e ?a ?w6)"
    using assms f1
    by (simp add: process_audio_def Let_def case_prod_unfold save_wav_result
          split: option.splits outcome.splits)
  obtain sv where sv: "quiet sv" "events ?w4 = events ?w3 @ sv"
    using save_wav_events[of e ?a ?w3] by blast
  have ev: "\<exists>pre. quiet pre \<and> events ?w6 = events w @ pre"
    using sv e1 by (cases "wav_read e") (auto simp: logging_def)
  have fields: "session_logger ?w6 = session_logger w" "log_files ?w6 = log_files w"
      "visual_indicator ?w6 = visual_indicator w" "recording_start_time ?w6 = recording_start_time w"
    by (auto split: option.splits outcome.splits)
  from p ev fields show ?thesis by blast
qed

lemma transcribe_audio_with_text:
  assumes "whisper e a = Inr result" and "strip (dict_get result ''text'' []) = txt" and "txt \<noteq> []"
  shows "transcribe_audio e a w =
           (let w3 = emit [Transcribe a]
                       (logged INFO ''Using direct numpy array transcription...''
                          (logged INFO ''Transcribing... please wait.'' w))
            in case delivery_error e of
                 None \<Rightarrow> snd (deliver_text e txt w3)
               | Some err \<Rightarrow> transcription_failed e err (snd (deliver_text e txt w3)))"
  using assms deliver_text_result(1)[of e "txt"]
  by (simp add: transcribe_audio_def Let_def case_prod_unfold split: option.splits)

lemma transcription_complete_after_stop [simp]:
  "transcription_complete txt (fst (indicator_stop_recording vi)) = transcription_complete txt vi"
  by (simp add: transcription_complete_def indicator_stop_recording_def
        show_notification_text_def Let_def)

lemma show_error_after_stop [simp]:
  "show_error m (fst (indicator_stop_recording vi)) = show_error m vi"
  by (simp add: show_error_def indicator_stop_recording_def show_notification_def Let_def)

lemma cancel_timer_more_fields [simp]:
  "session_logger (cancel_timer w) = session_logger w"
  "log_files (cancel_timer w) = log_files w"
  "visual_indicator (cancel_timer w) = visual_indicator w"
  "recording_start_time (cancel_timer w) = recording_start_time w"
  by (auto simp: cancel_timer_def split: option.splits)

lemma update_indicator_indicator:
  "visual_indicator (update_indicator m w) =
     (case visual_indicator w of None \<Rightarrow> None | Some vi \<Rightarrow> Some (fst (m vi)))"
  by (auto simp: update_indicator_def ENABLE_VISUAL_INDICATORS_def split: option.splits prod.splits)

lemma cleanup_temp_file_events:
  "\<exists>post. quiet post \<and> events (cleanup_temp_file e w) = events w @ post"
  by (auto simp: cleanup_temp_file_def logging_def split: outcome.splits)

lemma transcription_failed_logger:
  "session_logger (transcription_failed e err w) =
     (case session_logger w of
        None \<Rightarrow> None
      | Some lg \<Rightarrow> Some (fst (snd (log_error (log_env e) (''Transcription failed: '' @ err)
                                    (start_datetime w) lg (log_files w)))))"
  "log_files (transcription_failed e err w) =
     (case session_logger w of
        None \<Rightarrow> log_files w
      | Some lg \<Rightarrow> fst (snd (snd (log_error (log_env e) (''Transcription failed: '' @ err)
                                    (start_datetime w) lg (log_files w)))))"
  by (simp_all add: transcription_failed_def Let_def call_logger_result split: option.splits)

lemma transcription_failed_events:
  "\<exists>evs. quiet evs \<and> events (transcription_failed e err w) = events w @ evs
     \<and> (\<forall>vi. visual_indicator w = Some vi \<longrightarrow> set (show_error ''Transcription failed'' vi) \<subseteq> set evs)"
  by (auto simp: transcription_failed_def Let_def tell_indicator_events_eq call_logger_events_eq
        logger_methods_quiet split: option.splits)

lemma transcription_failed_notifies:
  "visual_indicator w = Some vi \<Longrightarrow>
     set (show_error ''Transcription failed'' vi) \<subseteq> set (events (transcription_failed e err w))"
  using transcription_failed_events[of e err w] by auto

text \<open>
  A stop request that reaches the engine and gets a non-empty text: the world in which
  the text is delivered, and what follows the delivery.
\<close>

lemma stop_with_text:
  assumes rec: "recording w" and frames: "audio_frames w \<noteq> []"
    and conc: "concatenate e = Succeeds" and wr: "wav_writable e"
    and res: "whisper e (concat (audio_frames w)) = Inr result"
    and tx: "strip (dict_get result ''text'' []) = txt" "txt \<noteq> []"
  shows "\<exists>w7 pre. quiet pre
           \<and> events w7 = events w @ pre @ [Transcribe (concat (audio_frames w))]
           \<and> session_logger w7 = session_logger w \<and> log_files w7 = log_files w
           \<and> visual_indicator w7 =
               (case visual_indicator w of None \<Rightarrow> None
                | Some vi \<Rightarrow> Some (fst (indicator_stop_recording vi)))
           \<and> recording_start_time w7 = recording_start_time w
           \<and> stop_recording_and_transcribe e w =
               cleanup_temp_file e
                 (case delivery_error e of
                    None \<Rightarrow> snd (deliver_text e txt w7)
                  | Some err \<Rightarrow> transcription_failed e err (snd (deliver_text e txt w7)))"
proof -
  let ?a = "concat (audio_frames w)"
  let ?w3 = "cancel_timer (update_indicator indicator_stop_recording (w\<lparr>recording := False\<rparr>))"
  have f3: "audio_frames ?w3 \<noteq> []" using frames by simp
  have a3: "concat (audio_frames ?w3) = ?a" by simp
  obtain w6 pre where
    p: "process_audio e ?w3 = (None, transcribe_audio e ?a w6)" and
    l6: "session_logger w6 = session_logger ?w3" "log_files w6 = log_files ?w3" and
    v6: "visual_indicator w6 = visual_indicator ?w3" and
    s6: "recording_start_time w6 = recording_start_time ?w3" and
    q: "quiet pre" and e6: "events w6 = events ?w3 @ pre"
    using process_audio_reaches[OF f3 conc wr] unfolding a3 by blast
  let ?w7 = "emit [Transcribe ?a]
               (logged INFO ''Using direct numpy array transcription...''
                  (logged INFO ''Transcribing... please wait.'' w6))"
  let ?pre = "(case visual_indicator w of None \<Rightarrow> [] | Some vi \<Rightarrow> snd (indicator_stop_recording vi))
                @ pre @ logging INFO ''Transcribing... please wait.''
                @ logging INFO ''Using direct numpy array transcription...''"
  have tr: "transcribe_audio e ?a w6 =
              (case delivery_error e of
                 None \<Rightarrow> snd (deliver_text e txt ?w7)
               | Some err \<Rightarrow> transcription_failed e err (snd (deliver_text e txt ?w7)))"
    using transcribe_audio_with_text[OF res tx, of w6] by (simp add: Let_def)
  have st: "stop_recording_and_transcribe e w =
              cleanup_temp_file e
                (case delivery_error e of
                   None \<Rightarrow> snd (deliver_text e txt ?w7)
                 | Some err \<Rightarrow> transcription_failed e err (snd (deliver_text e txt ?w7)))"
    using rec p tr by (simp add: stop_recording_and_transcribe_def stop_body_def Let_def)
  have qp: "quiet ?pre" using q by (simp split: option.splits)
  have ev: "events ?w7 = events w @ ?pre @ [Transcribe ?a]"
    using e6 by (simp add: update_indicator_events_eq)
  have l7: "session_logger ?w7 = session_logger w" "log_files ?w7 = log_files w"
    using l6 by simp_all
  have v7: "visual_indicator ?w7 =
              (case visual_indicator w of None \<Rightarrow> None
               | Some vi \<Rightarrow> Some (fst (indicator_stop_recording vi)))"
    using v6 by (simp add: update_indicator_indicator)
  have s7: "recording_start_time ?w7 = recording_start_time w" using s6 by simp
  from qp ev l7 v7 s7 st show ?thesis by blast
qed

lemma stop_delivers:
  assumes rec: "recording w" and frames: "audio_frames w \<noteq> []"
    and conc: "concatenate e = Succeeds" and wr: "wav_writable e"
    and res: "whisper e (concat (audio_frames w)) = Inr result"
    and tx: "strip (dict_get result ''text'' []) = txt" "txt \<noteq> []"
    and lg: "session_logger w = Some lg" and vi: "visual_indicator w = Some vi"
    and t0: "recording_start_time w = Some t0" "t0 \<noteq> 0"
    and call: "log_transcription (log_env e) txt (Some (clock e - t0)) (Some t0) lg (log_files w)
                 = (ok, lg1, fs1, levs)"
  shows "session_logger (stop_recording_and_transcribe e w) =
           Some (case delivery_error e of
                   None \<Rightarrow> lg1
                 | Some msg \<Rightarrow> fst (snd (log_error (log_env e) (''Transcription failed: '' @ msg)
                                          (Some t0) lg1 fs1)))
     \<and> log_files (stop_recording_and_transcribe e w) =
           (case delivery_error e of
              None \<Rightarrow> fs1
            | Some msg \<Rightarrow> fst (snd (snd (log_error (log_env e) (''Transcription failed: '' @ msg)
                                          (Some t0) lg1 fs1))))
     \<and> (\<exists>pre post. quiet pre \<and> quiet post
          \<and> (delivery_error e \<noteq> None \<longrightarrow> set (show_error ''Transcription failed'' vi) \<subseteq> set post)
          \<and> events (stop_recording_and_transcribe e w) =
              events w @ pre
              @ [Transcribe (concat (audio_frames w)), Log_text INFO ''Transcription: '' txt]
              @ levs @ transcription_complete txt vi
              @ delivery_tail e txt
              @ post)
     \<and> transcription_attempts (events (stop_recording_and_transcribe e w)) =
         transcription_attempts (events w) + 1
     \<and> clipboard_actions (events (stop_recording_and_transcribe e w)) =
         clipboard_actions (events w) + delivery_actions e"
proof -
  let ?a = "concat (audio_frames w)"
  let ?S = "stop_recording_and_transcribe e w"
  obtain w7 pre where q: "quiet pre"
    and e7: "events w7 = events w @ pre @ [Transcribe ?a]"
    and l7: "session_logger w7 = session_logger w" "log_files w7 = log_files w"
    and v7: "visual_indicator w7 =
               (case visual_indicator w of None \<Rightarrow> None
                | Some vi \<Rightarrow> Some (fst (indicator_stop_recording vi)))"
    and s7: "recording_start_time w7 = recording_start_time w"
    and st: "?S = cleanup_temp_file e
                    (case delivery_error e of
                       None \<Rightarrow> snd (deliver_text e txt w7)
                     | Some err \<Rightarrow> transcription_failed e err (snd (deliver_text e txt w7)))"
    using stop_with_text[OF rec frames conc wr res tx] by blast
  let ?d = "snd (deliver_text e txt w7)"
  have md: "measured_duration e w7 = Some (clock e - t0)" "start_datetime w7 = Some t0"
    using s7 t0 by (simp_all add: measured_duration_def start_datetime_def truthy_float_def)
  have ld: "session_logger ?d = Some lg1" "log_files ?d = fs1"
    using l7 lg md call by (simp_all add: deliver_text_logger)
  have vd: "visual_indicator ?d = Some (fst (indicator_stop_recording vi))"
    using v7 vi by simp
  have sd: "start_datetime ?d = Some t0"
    using s7 t0 by (simp add: start_datetime_def truthy_float_def)
  have ed: "events ?d = events w @ pre
              @ [Transcribe ?a, Log_text INFO ''Transcription: '' txt]
              @ levs @ transcription_complete txt vi @ delivery_tail e txt"
    using l7 lg v7 vi md call by (simp add: deliver_text_result(2) e7)
  have cnt: "transcription_attempts (events ?S) = transcription_attempts (events w) + 1"
            "clipboard_actions (events ?S) = clipboard_actions (events w) + delivery_actions e"
    using rec frames conc wr res tx
    by (simp_all add: stop_counts reaches_engine_def yields_text_def)
  show ?thesis
  proof (cases "delivery_error e")
    case None
    obtain post where qpost: "quiet post"
      and evc: "events (cleanup_temp_file e ?d) = events ?d @ post"
      using cleanup_temp_file_events by blast
    have evs: "events ?S = events w @ pre
              @ [Transcribe ?a, Log_text INFO ''Transcription: '' txt]
              @ levs @ transcription_complete txt vi @ delivery_tail e txt @ post"
      using None by (simp add: st evc ed)
    have lgr: "session_logger ?S = Some lg1" "log_files ?S = fs1"
      using None ld by (simp_all add: st)
    from None lgr evs q qpost cnt show ?thesis by auto
  next
    case (Some err)
    let ?f = "transcription_failed e err ?d"
    obtain fevs where qf: "quiet fevs"
      and evf: "events ?f = events ?d @ fevs"
      and sub: "set (show_error ''Transcription failed'' (fst (indicator_stop_recording vi))) \<subseteq> set fevs"
      using transcription_failed_events[of e err ?d] vd by blast
    obtain post where qpost: "quiet post"
      and evc: "events (cleanup_temp_file e ?f) = events ?f @ post"
      using cleanup_temp_file_events by blast
    have evs: "events ?S = events w @ pre
              @ [Transcribe ?a, Log_text INFO ''Transcription: '' txt]
              @ levs @ transcription_complete txt vi @ delivery_tail e txt @ (fevs @ post)"
      using Some by (simp add: st evc evf ed)
    have qfp: "quiet (fevs @ post)" using qf qpost by simp
    have subp: "set (show_error ''Transcription failed'' vi) \<subseteq> set (fevs @ post)"
      using sub by auto
    have lgr: "session_logger ?S =
                 Some (fst (snd (log_error (log_env e) (''Transcription failed: '' @ err)
                                   (Some t0) lg1 fs1)))"
              "log_files ?S =
                 fst (snd (snd (log_error (log_env e) (''Transcription failed: '' @ err)
                                  (Some t0) lg1 fs1)))"
      using Some ld sd by (simp_all add: st transcription_failed_logger)
    have ex: "\<exists>pre post. quiet pre \<and> quiet post
          \<and> (delivery_error e \<noteq> None \<longrightarrow> set (show_error ''Transcription failed'' vi) \<subseteq> set post)
          \<and> events ?S =
              events w @ pre
              @ [Transcribe ?a, Log_text INFO ''Transcription: '' txt]
              @ levs @ transcription_complete txt vi
              @ delivery_tail e txt
              @ post"
      using q qfp subp evs by blast
    from Some lgr ex cnt show ?thesis by simp
  qed
qed


subsection \<open>A failed start\<close>

lemma start_failed_fields [simp]:
  "\<not> recording (start_failed msg w)"
  "audio_frames (start_failed msg w) = audio_frames w"
  "auto_stop_timer (start_failed msg w) = auto_stop_timer w"
  "session_logger (start_failed msg w) = session_logger w"
  "log_files (start_failed msg w) = log_files w"
  "visual_indicator (start_failed msg w) = visual_indicator w"
  "temp_wav (start_failed msg w) = temp_wav w"
  "events (start_failed msg w) =
     events w @ [Log ERROR (''Failed to start recording: '' @ msg),
                 Log ERROR ''Make sure your microphone is connected and accessible.'']"
  by (simp_all add: start_failed_def logging_def)

lemma timer_armed_cong: "auto_stop_timer w1 = auto_stop_timer w \<Longrightarrow> timer_armed w1 = timer_armed w"
  by (simp add: timer_armed_def)

lemma stop_disarms: "recording w \<Longrightarrow> \<not> timer_armed (stop_recording_and_transcribe e w)"
proof -
  assume r: "recording w"
  let ?w3 = "cancel_timer (update_indicator indicator_stop_recording (w\<lparr>recording := False\<rparr>))"
  obtain x w4 where p: "process_audio e ?w3 = (x, w4)" by (cases "process_audio e ?w3") auto
  then have w4: "auto_stop_timer w4 = auto_stop_timer ?w3"
    using process_audio_fields(3)[of e ?w3] by simp
  have "auto_stop_timer (stop_recording_and_transcribe e w) = auto_stop_timer ?w3"
    using r p w4 by (cases x) (simp_all add: stop_recording_and_transcribe_def stop_body_def Let_def)
  then show ?thesis
    using cancel_timer_fields(6)[of "update_indicator indicator_stop_recording (w\<lparr>recording := False\<rparr>)"]
    by (simp add: timer_armed_def)
qed

lemma start_recording_recording:
  "recording (start_recording e w) = (recording w \<or> open_stream e = Opened)"
  by (auto simp: start_recording_def Let_def split: stream_outcome.splits)

lemma start_recording_timer:
  "\<not> recording w \<Longrightarrow> open_stream e \<noteq> Opened \<Longrightarrow>
     auto_stop_timer (start_recording e w) = auto_stop_timer w"
  by (auto simp: start_recording_def Let_def split: stream_outcome.splits)

lemma monitor_fields [simp]:
  "recording (monitor ticks w) = recording w"
  "auto_stop_timer (monitor ticks w) = auto_stop_timer w"
  by (auto simp: monitor_def split: option.splits prod.splits)

lemma idle_timer_invariant: "reachable w \<Longrightarrow> recording w \<or> \<not> timer_armed w"
proof (induction rule: reachable.induct)
  case (init vi lg wav fs)
  then show ?case by (simp add: initial_world_def timer_armed_def)
next
  case (start w e)
  show ?case
  proof (cases "recording w \<or> open_stream e = Opened")
    case True
    then show ?thesis by (simp add: start_recording_recording)
  next
    case False
    with start.IH have "\<not> timer_armed w" by simp
    moreover from False have "auto_stop_timer (start_recording e w) = auto_stop_timer w"
      by (simp add: start_recording_timer)
    ultimately show ?thesis by (simp add: timer_armed_def)
  qed
next
  case (stop w e)
  show ?case
  proof (cases "recording w")
    case True
    then show ?thesis by (simp add: stop_disarms)
  next
    case False
    with stop.IH show ?thesis by (simp add: stop_when_idle)
  qed
next
  case (callback w indata status)
  then show ?case by (simp add: timer_armed_def)
next
  case (tick w ticks)
  then show ?case by (simp add: timer_armed_def)
qed


subsection \<open>A failed serialization\<close>

lemma error_notices_append [simp]:
  "error_notices (xs @ ys) = error_notices xs + error_notices ys"
  by (simp add: error_notices_def)

lemma error_notices_Nil [simp]: "error_notices [] = 0"
  by (simp add: error_notices_def)

lemma error_notices_logging [simp]: "error_notices (logging lvl msg) = 0"
  by (simp add: error_notices_def logging_def)

lemma error_notices_stop_indicator [simp]: "error_notices (snd (indicator_stop_recording vi)) = 0"
  by (simp add: indicator_stop_recording_def Let_def)
     (simp add: error_notices_def show_notification_def)

lemma save_wav_error_notices [simp]:
  "error_notices (events (snd (save_wav e a w))) = error_notices (events w)"
  by (auto simp: save_wav_def Let_def leave_partial_def
        split: sf_outcome.splits write_outcome.splits prod.splits option.splits)

lemma cleanup_temp_file_events_eq:
  "events (cleanup_temp_file e w) =
     events w @ (case temp_wav w of
                   None \<Rightarrow> []
                 | Some a \<Rightarrow>
                     (case remove e of
                        Succeeds \<Rightarrow> []
                      | Raises msg \<Rightarrow> [Log WARNING (''Could not remove temp file: '' @ msg)]))"
  by (auto simp: cleanup_temp_file_def logging_def split: outcome.splits option.splits)

lemma cleanup_temp_file_error_notices [simp]:
  "error_notices (events (cleanup_temp_file e w)) = error_notices (events w)"
  by (auto simp: cleanup_temp_file_events_eq error_notices_def split: outcome.splits option.splits)

lemma serialization_failure_is_silent:
  assumes "recording w" and "audio_frames w \<noteq> []" and "concatenate e = Succeeds"
    and "\<not> wav_writable e"
  shows "session_logger (stop_recording_and_transcribe e w) = session_logger w"
    and "log_files (stop_recording_and_transcribe e w) = log_files w"
    and "error_notices (events (stop_recording_and_transcribe e w)) = error_notices (events w)"
    and "transcription_attempts (events (stop_recording_and_transcribe e w)) =
           transcription_attempts (events w)"
    and "Log ERROR ''All WAV writing methods failed!'' \<in> set (events (stop_recording_and_transcribe e w))"
proof -
  let ?w3 = "cancel_timer (update_indicator indicator_stop_recording (w\<lparr>recording := False\<rparr>))"
  let ?w1 = "case stream ?w3 of None \<Rightarrow> ?w3 | Some s \<Rightarrow> ?w3\<lparr>stream := None\<rparr>"
  let ?w2 = "logged INFO ''Captured audio frames'' (logged INFO ''Processing audio...'' ?w1)"
  let ?w3' = "logged INFO ''Saving audio'' (logged INFO ''Audio array shape'' ?w2)"
  let ?w4 = "snd (save_wav e (concat (audio_frames w)) ?w3')"
  let ?w5 = "logged ERROR ''All WAV writing methods failed!'' ?w4"
  have f: "audio_frames ?w1 = audio_frames w" by (simp split: option.splits)
  have p: "process_audio e ?w3 = (None, ?w5)"
    using assms f
    by (simp add: process_audio_def Let_def case_prod_unfold save_wav_result
          split: option.splits outcome.splits)
  have st: "stop_recording_and_transcribe e w = cleanup_temp_file e ?w5"
    using assms(1) p by (simp add: stop_recording_and_transcribe_def stop_body_def Let_def)
  show "session_logger (stop_recording_and_transcribe e w) = session_logger w"
    unfolding st by (simp split: option.splits)
  show "log_files (stop_recording_and_transcribe e w) = log_files w"
    unfolding st by (simp split: option.splits)
  have e1: "events ?w1 = events ?w3" by (simp split: option.splits)
  have en3: "error_notices (events ?w3) = error_notices (events w)"
    by (simp add: update_indicator_events_eq split: option.splits)
  show "error_notices (events (stop_recording_and_transcribe e w)) = error_notices (events w)"
    unfolding st using e1 en3 by simp
  show "transcription_attempts (events (stop_recording_and_transcribe e w)) =
           transcription_attempts (events w)"
    using assms by (simp add: stop_counts reaches_engine_def)
  show "Log ERROR ''All WAV writing methods failed!'' \<in> set (events (stop_recording_and_transcribe e w))"
    unfolding st by (simp add: cleanup_temp_file_events_eq logging_def)
qed

subsection \<open>The time-warning monitor\<close>

lemma occurrences_simps [simp]:
  "occurrences ev [] = 0"
  "occurrences ev (x # xs) = (if x = ev then 1 else 0) + occurrences ev xs"
  "occurrences ev (xs @ ys) = occurrences ev xs + occurrences ev ys"
  by (simp_all add: occurrences_def)

lemma warnings_distinct [simp]: "warning_30 \<noteq> warning_10" "warning_10 \<noteq> warning_30"
  by (simp_all add: warning_30_def warning_10_def)

lemma monitor_tick_frame [simp]:
  "running (fst (monitor_tick now self)) = running self"
  "ind_recording (fst (monitor_tick now self)) = ind_recording self"
  "start_time (fst (monitor_tick now self)) = start_time self"
  "has_plyer (fst (monitor_tick now self)) = has_plyer self"
  "max_duration_sec (fst (monitor_tick now self)) = max_duration_sec self"
  by (simp_all add: monitor_tick_def Let_def case_prod_unfold)

lemma remaining_time_tick [simp]:
  "remaining_time (fst (monitor_tick now self)) t = remaining_time self t"
  by (simp add: remaining_time_def)

lemma monitoring_tick [simp]: "monitoring (fst (monitor_tick now self)) = monitoring self"
  by (simp add: monitoring_def)

lemma in_window_tick [simp]:
  "in_window_30 (fst (monitor_tick now self)) t = in_window_30 self t"
  "in_window_10 (fst (monitor_tick now self)) t = in_window_10 self t"
  by (simp_all add: in_window_30_def in_window_10_def)

lemma monitor_tick_30:
  "warning_30_shown (fst (monitor_tick now self)) =
     (warning_30_shown self \<or> (ind_recording self \<and> truthy_float (start_time self) \<and> in_window_30 self now))"
  "occurrences warning_30 (snd (monitor_tick now self)) =
     (if ind_recording self \<and> truthy_float (start_time self) \<and> in_window_30 self now
         \<and> \<not> warning_30_shown self \<and> has_plyer self then 1 else 0)"
  by (auto simp: monitor_tick_def Let_def case_prod_unfold in_window_30_def show_notification_def
        warning_30_def)

lemma monitor_tick_10:
  "warning_10_shown (fst (monitor_tick now self)) =
     (warning_10_shown self \<or> (ind_recording self \<and> truthy_float (start_time self) \<and> in_window_10 self now))"
  "occurrences warning_10 (snd (monitor_tick now self)) =
     (if ind_recording self \<and> truthy_float (start_time self) \<and> in_window_10 self now
         \<and> \<not> warning_10_shown self \<and> has_plyer self then 1 else 0)"
  by (auto simp: monitor_tick_def Let_def case_prod_unfold in_window_10_def show_notification_def
        warning_10_def)

lemma monitor_shown_30:
  "warning_30_shown self \<Longrightarrow> occurrences warning_30 (snd (monitor_recording_time ticks self)) = 0"
proof (induction ticks arbitrary: self)
  case Nil
  then show ?case by simp
next
  case (Cons now ticks)
  have "warning_30_shown (fst (monitor_tick now self))" using Cons.prems by (simp add: monitor_tick_30)
  from Cons.IH[OF this] Cons.prems show ?case
    by (simp add: case_prod_unfold monitor_tick_30)
qed

lemma monitor_shown_10:
  "warning_10_shown self \<Longrightarrow> occurrences warning_10 (snd (monitor_recording_time ticks self)) = 0"
proof (induction ticks arbitrary: self)
  case Nil
  then show ?case by simp
next
  case (Cons now ticks)
  have "warning_10_shown (fst (monitor_tick now self))" using Cons.prems by (simp add: monitor_tick_10)
  from Cons.IH[OF this] Cons.prems show ?case
    by (simp add: case_prod_unfold monitor_tick_10)
qed

lemma monitor_at_most_once_30:
  "occurrences warning_30 (snd (monitor_recording_time ticks self)) \<le> 1"
proof (induction ticks arbitrary: self)
  case Nil
  then show ?case by simp
next
  case (Cons now ticks)
  show ?case
  proof (cases "occurrences warning_30 (snd (monitor_tick now self)) = 0")
    case True
    with Cons.IH[of "fst (monitor_tick now self)"] show ?thesis
      by (simp add: case_prod_unfold)
  next
    case False
    then have "warning_30_shown (fst (monitor_tick now self))"
      by (auto simp: monitor_tick_30 split: if_splits)
    from monitor_shown_30[OF this, of ticks] show ?thesis
      by (simp add: case_prod_unfold monitor_tick_30)
  qed
qed

lemma monitor_at_most_once_10:
  "occurrences warning_10 (snd (monitor_recording_time ticks self)) \<le> 1"
proof (induction ticks arbitrary: self)
  case Nil
  then show ?case by simp
next
  case (Cons now ticks)
  show ?case
  proof (cases "occurrences warning_10 (snd (monitor_tick now self)) = 0")
    case True
    with Cons.IH[of "fst (monitor_tick now self)"] show ?thesis
      by (simp add: case_prod_unfold)
  next
    case False
    then have "warning_10_shown (fst (monitor_tick now self))"
      by (auto simp: monitor_tick_10 split: if_splits)
    from monitor_shown_10[OF this, of ticks] show ?thesis
      by (simp add: case_prod_unfold monitor_tick_10)
  qed
qed

lemma monitor_exact_30:
  assumes "monitoring self" and "\<not> warning_30_shown self"
  shows "occurrences warning_30 (snd (monitor_recording_time ticks self)) =
           (if has_plyer self \<and> (\<exists>now \<in> set ticks. in_window_30 self now) then 1 else 0)"
  using assms
proof (induction ticks arbitrary: self)
  case Nil
  then show ?case by simp
next
  case (Cons now ticks)
  let ?s = "fst (monitor_tick now self)"
  have live: "running self" "ind_recording self" "truthy_float (start_time self)"
    using Cons.prems(1) by (simp_all add: monitoring_def)
  show ?case
  proof (cases "in_window_30 self now")
    case True
    then have "warning_30_shown ?s" using live by (simp add: monitor_tick_30)
    from monitor_shown_30[OF this, of ticks] True live Cons.prems(2) show ?thesis
      by (simp add: case_prod_unfold monitor_tick_30)
  next
    case False
    then have ns: "\<not> warning_30_shown ?s" using Cons.prems(2) by (simp add: monitor_tick_30)
    have m: "monitoring ?s" using Cons.prems(1) by simp
    from Cons.IH[OF m ns] False live show ?thesis
      by (simp add: case_prod_unfold monitor_tick_30)
  qed
qed

lemma monitor_exact_10:
  assumes "monitoring self" and "\<not> warning_10_shown self"
  shows "occurrences warning_10 (snd (monitor_recording_time ticks self)) =
           (if has_plyer self \<and> (\<exists>now \<in> set ticks. in_window_10 self now) then 1 else 0)"
  using assms
proof (induction ticks arbitrary: self)
  case Nil
  then show ?case by simp
next
  case (Cons now ticks)
  let ?s = "fst (monitor_tick now self)"
  have live: "running self" "ind_recording self" "truthy_float (start_time self)"
    using Cons.prems(1) by (simp_all add: monitoring_def)
  show ?case
  proof (cases "in_window_10 self now")
    case True
    then have "warning_10_shown ?s" using live by (simp add: monitor_tick_10)
    from monitor_shown_10[OF this, of ticks] True live Cons.prems(2) show ?thesis
      by (simp add: case_prod_unfold monitor_tick_10)
  next
    case False
    then have ns: "\<not> warning_10_shown ?s" using Cons.prems(2) by (simp add: monitor_tick_10)
    have m: "monitoring ?s" using Cons.prems(1) by simp
    from Cons.IH[OF m ns] False live show ?thesis
      by (simp add: case_prod_unfold monitor_tick_10)
  qed
qed

lemma indicator_start_recording_state:
  "fst (indicator_start_recording t0 self) =
     self\<lparr>ind_recording := True, start_time := Some t0,
          warning_30_shown := False, warning_10_shown := False\<rparr>"
  by (simp add: indicator_start_recording_def Let_def)

text \<open>
  Claim C5 (as amended). Starting a recording on the indicator resets both flags. For a
  running monitor and a session started at a non-zero clock reading, any run of the
  monitor loop emits the 30-second warning at most once, and exactly once if and only if
  notifications are available and some iteration reads a remaining time in the window
  (29, 30]; the same holds for the 10-second warning and the window (9, 10]. A session
  none of whose iterations falls in a window gets no warning for that threshold.
\<close>

theorem warning_once_iff_tick_in_window:
  assumes "running self" and "t0 \<noteq> 0" and "started = fst (indicator_start_recording t0 self)"
  shows "\<not> warning_30_shown started \<and> \<not> warning_10_shown started
     \<and> occurrences warning_30 (snd (monitor_recording_time ticks started)) =
         (if has_plyer self \<and> (\<exists>now \<in> set ticks. in_window_30 started now) then 1 else 0)
     \<and> occurrences warning_10 (snd (monitor_recording_time ticks started)) =
         (if has_plyer self \<and> (\<exists>now \<in> set ticks. in_window_10 started now) then 1 else 0)"
proof -
  have m: "monitoring started"
    using assms by (simp add: indicator_start_recording_state monitoring_def truthy_float_def)
  have f: "\<not> warning_30_shown started" "\<not> warning_10_shown started" "has_plyer started = has_plyer self"
    using assms(3) by (simp_all add: indicator_start_recording_state)
  show ?thesis
    using monitor_exact_30[OF m f(1), of ticks] monitor_exact_10[OF m f(2), of ticks] f by simp
qed

subsection \<open>The sample sessions\<close>

lemma sample_world_fields:
  "\<not> recording sample_world" "audio_frames sample_world = []"
  "session_logger sample_world = Some sample_logger"
  "visual_indicator sample_world = Some sample_indicator"
  "log_files sample_world = Map.empty" "temp_wav sample_world = None"
  "events sample_world = []" "auto_stop_timer sample_world = None"
  by (simp_all add: sample_world_def initial_world_def)

lemma sample_env_fields:
  "concatenate sample_env = Succeeds" "wav_writable sample_env" "remove sample_env = Succeeds"
  "open_stream sample_env = Opened" "clock sample_env = 1002" "log_env sample_env = sample_logger_env"
  "whisper sample_env a = Inr [''text'' \<mapsto> unicode '' hello world'']"
  "clipboard_copy sample_env = Succeeds" "paste_hotkey sample_env = Succeeds"
  by (simp_all add: sample_env_def wav_writable_def)

lemma capturing_world_fields:
  "recording capturing_world" "audio_frames capturing_world = []"
  "session_logger capturing_world = Some sample_logger"
  "visual_indicator capturing_world =
     Some (sample_indicator\<lparr>ind_recording := True, start_time := Some 1000\<rparr>)"
  "log_files capturing_world = Map.empty" "temp_wav capturing_world = None"
  "recording_start_time capturing_world = Some 1000"
  "events capturing_world =
     [Log INFO ''Recording started... (max 30 min)'',
      Notify ''Recording Started'' ''Voice recording in progress...'',
      Log INFO ''Visual indicators: Recording started'']"
  by (simp_all add: capturing_world_def start_recording_def sample_env_def sample_world_def
        initial_world_def Let_def update_indicator_def ENABLE_VISUAL_INDICATORS_def
        indicator_start_recording_def sample_indicator_def show_notification_def logging_def
        logged_def emit_def)

lemma recorded_world_fields:
  "recording recorded_world" "audio_frames recorded_world = [[0.1, 0.2], [0.3]]"
  "session_logger recorded_world = Some sample_logger"
  "visual_indicator recorded_world =
     Some (sample_indicator\<lparr>ind_recording := True, start_time := Some 1000\<rparr>)"
  "log_files recorded_world = Map.empty" "temp_wav recorded_world = None"
  "recording_start_time recorded_world = Some 1000"
  "events recorded_world = events capturing_world"
  by (simp_all add: recorded_world_def audio_callback_def capturing_world_fields Let_def)

lemma strip_sample:
  "strip (unicode '' hello world'') = unicode ''hello world''" "unicode ''hello world'' \<noteq> []"
  by (simp_all add: strip_def is_space_def unicode_def)

lemma stop_keeps_frames [simp]:
  "audio_frames (stop_recording_and_transcribe e w) = audio_frames w"
proof (cases "recording w")
  case False
  then show ?thesis by (simp add: stop_when_idle)
next
  case True
  let ?w3 = "cancel_timer (update_indicator indicator_stop_recording (w\<lparr>recording := False\<rparr>))"
  obtain x w4 where p: "process_audio e ?w3 = (x, w4)" by (cases "process_audio e ?w3") auto
  then have "audio_frames w4 = audio_frames ?w3"
    using process_audio_fields(2)[of e ?w3] by simp
  with True p show ?thesis
    by (cases x) (simp_all add: stop_recording_and_transcribe_def stop_body_def Let_def)
qed

lemma attempts_capturing: "transcription_attempts (events capturing_world) = 0"
  by (simp add: capturing_world_fields)



theorem empty_buffer_skips_transcription_witness:
  "recording capturing_world \<and> audio_frames capturing_world = []
   \<and> \<not> recording (stop_recording_and_transcribe sample_env capturing_world)
   \<and> transcription_attempts (events (stop_recording_and_transcribe sample_env capturing_world)) = 0
   \<and> clipboard_actions (events (stop_recording_and_transcribe sample_env capturing_world)) = 0
   \<and> events (stop_recording_and_transcribe sample_env capturing_world) =
       events capturing_world
       @ [Notify ''Recording Stopped'' ''Processing audio...'',
          Log INFO ''Visual indicators: Recording stopped'',
          Log WARNING ''No audio data recorded.'']"
  using empty_buffer_skips_transcription [of capturing_world sample_env]
  by (simp add: capturing_world_fields indicator_stop_recording_def Let_def show_notification_def
        sample_indicator_def logging_def)

lemma artifact_left_when_remove_fails:
  assumes "recording w" and "audio_frames w \<noteq> []" and "concatenate e = Succeeds"
    and "wav_writable e" and "remove e = Raises msg"
  shows "temp_wav (stop_recording_and_transcribe e w) = Some (concat (audio_frames w))"
proof -
  let ?w3 = "cancel_timer (update_indicator indicator_stop_recording (w\<lparr>recording := False\<rparr>))"
  have f: "audio_frames ?w3 = audio_frames w" by simp
  have p: "fst (process_audio e ?w3) = None
           \<and> temp_wav (snd (process_audio e ?w3)) = Some (concat (audio_frames w))"
    using assms(2-4) f
    by (simp add: process_audio_def Let_def case_prod_unfold save_wav_result
          split: option.splits outcome.splits)
  then have "stop_recording_and_transcribe e w = cleanup_temp_file e (snd (process_audio e ?w3))"
    using assms(1)
    by (cases "process_audio e ?w3") (simp add: stop_recording_and_transcribe_def stop_body_def Let_def)
  with p assms(5) show ?thesis by (simp add: cleanup_temp_file_def)
qed

theorem artifact_left_when_remove_raises:
  "recording recorded_world \<and> audio_frames recorded_world \<noteq> []
   \<and> \<not> recording (stop_recording_and_transcribe locked_env recorded_world)
   \<and> temp_wav (stop_recording_and_transcribe locked_env recorded_world) = Some [0.1, 0.2, 0.3]"
  using artifact_left_when_remove_fails [of recorded_world locked_env "''file is locked''"]
  by (simp add: recorded_world_fields locked_env_def sample_env_def wav_writable_def)

theorem artifact_removed_unless_remove_raises_witness:
  "recording recorded_world
   \<and> remove sample_env = Succeeds
   \<and> temp_wav (stop_recording_and_transcribe sample_env recorded_world) = None
   \<and> temp_wav (stop_recording_and_transcribe locked_env recorded_world) \<noteq> None
   \<and> (\<exists>msg. remove locked_env = Raises msg
         \<and> Log WARNING (''Could not remove temp file: '' @ msg)
             \<in> set (events (stop_recording_and_transcribe locked_env recorded_world)))"
proof -
  have l: "temp_wav (stop_recording_and_transcribe locked_env recorded_world) \<noteq> None"
    using artifact_left_when_remove_fails [of recorded_world locked_env "''file is locked''"]
    by (simp add: recorded_world_fields locked_env_def sample_env_def wav_writable_def)
  show ?thesis
    using l artifact_removed_unless_remove_raises [of recorded_world sample_env] artifact_removed_unless_remove_raises [of recorded_world locked_env]
    by (simp add: recorded_world_fields sample_env_fields)
qed

theorem chunk_appended_iff_recording_witness:
  "\<not> recording sample_world
   \<and> audio_frames (audio_callback [0.5] None sample_world) = audio_frames sample_world
   \<and> recording capturing_world
   \<and> audio_frames (audio_callback [0.5] None capturing_world) = audio_frames capturing_world @ [[0.5]]
   \<and> audio_frames (audio_callbacks [([0.7], None), ([0.9], None)]
        (stop_recording_and_transcribe sample_env recorded_world)) = [[0.1, 0.2], [0.3]]"
  using chunk_appended_iff_recording [of "[0.5]" None sample_world "[]" sample_env]
        chunk_appended_iff_recording [of "[0.5]" None capturing_world "[]" sample_env]
        chunk_appended_iff_recording [of "[0.5]" None recorded_world "[([0.7], None), ([0.9], None)]" sample_env]
  by (simp add: sample_world_fields capturing_world_fields recorded_world_fields)

lemma started_indicator_remaining:
  "remaining_time started_indicator now = max 0 (1800 - (now - 1000))"
  by (simp add: started_indicator_def indicator_start_recording_state remaining_time_def
        sample_indicator_def MAX_DURATION_SEC_def)

lemma started_indicator_live:
  "monitoring started_indicator" "\<not> warning_30_shown started_indicator"
  "\<not> warning_10_shown started_indicator" "has_plyer started_indicator"
  by (simp_all add: started_indicator_def indicator_start_recording_state monitoring_def
        sample_indicator_def truthy_float_def)

lemma late_ticks_miss_30: "\<forall>now \<in> set late_ticks. \<not> in_window_30 started_indicator now"
proof
  fix now assume "now \<in> set late_ticks"
  then obtain k :: nat where now: "now = 1000 + 0.475 + 1.01 * real k"
    by (auto simp: late_ticks_def)
  have "k \<le> 1752 \<or> 1753 \<le> k" by arith
  then show "\<not> in_window_30 started_indicator now"
  proof
    assume "k \<le> 1752"
    then have "real k \<le> 1752" by simp
    then show ?thesis
      unfolding in_window_30_def started_indicator_remaining now by (simp add: max_def)
  next
    assume "1753 \<le> k"
    then have "1753 \<le> real k" by simp
    then show ?thesis
      unfolding in_window_30_def started_indicator_remaining now by (simp add: max_def)
  qed
qed

lemma late_ticks_hit_10: "\<exists>now \<in> set late_ticks. in_window_10 started_indicator now"
proof -
  have "(1772::nat) \<in> set [0..<1783]" by simp
  then have "(\<lambda>k. 1000 + 0.475 + 1.01 * real k) 1772 \<in> set late_ticks"
    unfolding late_ticks_def set_map by (rule imageI)
  then have "1000 + 0.475 + 1.01 * real (1772::nat) \<in> set late_ticks" by simp
  moreover have "in_window_10 started_indicator (1000 + 0.475 + 1.01 * real (1772::nat))"
    unfolding in_window_10_def started_indicator_remaining by (simp add: max_def)
  ultimately show ?thesis by blast
qed

theorem delayed_monitor_misses_warning:
  "running sample_indicator \<and> has_plyer sample_indicator
   \<and> started_indicator = fst (indicator_start_recording 1000 sample_indicator)
   \<and> 1000 + MAX_DURATION_SEC \<le> last late_ticks
   \<and> occurrences warning_30 (snd (monitor_recording_time late_ticks started_indicator)) = 0
   \<and> occurrences warning_10 (snd (monitor_recording_time late_ticks started_indicator)) = 1"
proof -
  have l: "last late_ticks = 1000 + 0.475 + 1.01 * real (1782::nat)"
    unfolding late_ticks_def by (simp add: last_map)
  have "occurrences warning_30 (snd (monitor_recording_time late_ticks started_indicator)) = 0"
    using monitor_exact_30[OF started_indicator_live(1,2), of late_ticks] late_ticks_miss_30
    by simp
  moreover have "occurrences warning_10 (snd (monitor_recording_time late_ticks started_indicator)) = 1"
    using monitor_exact_10[OF started_indicator_live(1,3), of late_ticks] late_ticks_hit_10
      started_indicator_live(4) by simp
  ultimately show ?thesis
    by (simp add: l sample_indicator_def started_indicator_def MAX_DURATION_SEC_def)
qed

theorem warning_once_iff_tick_in_window_witness:
  "running sample_indicator \<and> (1000::real) \<noteq> 0
   \<and> (\<exists>now \<in> set prompt_ticks. in_window_30 started_indicator now)
   \<and> (\<exists>now \<in> set prompt_ticks. in_window_10 started_indicator now)
   \<and> occurrences warning_30 (snd (monitor_recording_time prompt_ticks started_indicator)) = 1
   \<and> occurrences warning_10 (snd (monitor_recording_time prompt_ticks started_indicator)) = 1"
proof -
  have r: "running sample_indicator" "has_plyer sample_indicator"
    by (simp_all add: sample_indicator_def)
  have w30: "\<exists>now \<in> set prompt_ticks. in_window_30 started_indicator now"
    by (simp add: prompt_ticks_def in_window_30_def started_indicator_remaining)
  have w10: "\<exists>now \<in> set prompt_ticks. in_window_10 started_indicator now"
    by (simp add: prompt_ticks_def in_window_10_def started_indicator_remaining)
  show ?thesis
    using r w30 w10
      warning_once_iff_tick_in_window [of sample_indicator 1000 started_indicator prompt_ticks]
    by (simp add: started_indicator_def)
qed

lemma sample_log_call:
  "log_transcription sample_logger_env (unicode ''hello world'') (Some (1002 - 1000)) (Some 1000)
     sample_logger Map.empty =
   (True, sample_logger\<lparr>recording_count := 1\<rparr>,
    [sample_path \<mapsto> [Recording_header 1000 1, Duration_note 2, Newline,
                     Quoted_text (unicode ''hello world''), Rule30]],
    [Log INFO ''Transcription logged to session file''])"
  by (simp add: log_transcription_def sample_logger_def sample_logger_env_def sample_path_def
        truthy_str_def truthy_float_def append_file_def dict_get_def logging_def Let_def)

lemma sample_failure_call:
  "log_error sample_logger_env (''Transcription failed: '' @ msg) (Some 1000)
     (sample_logger\<lparr>recording_count := 1\<rparr>)
     [sample_path \<mapsto> [Recording_header 1000 1, Duration_note 2, Newline,
                      Quoted_text (unicode ''hello world''), Rule30]] =
   (True, sample_logger\<lparr>recording_count := 2\<rparr>,
    [sample_path \<mapsto> [Recording_header 1000 1, Duration_note 2, Newline,
                     Quoted_text (unicode ''hello world''), Rule30,
                     Error_header 1000 2, Error_message (''Transcription failed: '' @ msg), Rule30]],
    [Log INFO ''Error logged to session file''])"
  by (simp add: log_error_def sample_logger_def sample_logger_env_def sample_path_def
        truthy_str_def append_file_def dict_get_def logging_def Let_def numeral_2_eq_2)

lemma sample_delivery_premises:
  assumes "concatenate e = Succeeds" and "wav_writable e"
    and "whisper e = whisper sample_env" and "log_env e = sample_logger_env" and "clock e = 1002"
  shows "recording recorded_world" "audio_frames recorded_world \<noteq> []"
    "concatenate e = Succeeds" "wav_writable e"
    "whisper e (concat (audio_frames recorded_world)) = Inr [''text'' \<mapsto> unicode '' hello world'']"
    "strip (dict_get [''text'' \<mapsto> unicode '' hello world''] ''text'' []) = unicode ''hello world''"
    "unicode ''hello world'' \<noteq> []"
    "session_logger recorded_world = Some sample_logger"
    "visual_indicator recorded_world =
       Some (sample_indicator\<lparr>ind_recording := True, start_time := Some 1000\<rparr>)"
    "recording_start_time recorded_world = Some 1000" "(1000::real) \<noteq> 0"
    "log_transcription (log_env e) (unicode ''hello world'') (Some (clock e - 1000))
       (Some 1000) sample_logger (log_files recorded_world) =
     (True, sample_logger\<lparr>recording_count := 1\<rparr>,
      [sample_path \<mapsto> [Recording_header 1000 1, Duration_note 2, Newline,
                       Quoted_text (unicode ''hello world''), Rule30]],
      [Log INFO ''Transcription logged to session file''])"
  using assms sample_log_call
  by (simp_all add: recorded_world_fields sample_env_fields dict_get_def strip_sample)

lemma sample_env_delivery:
  "delivery_error sample_env = None"
  "delivery_tail sample_env t = [ClipboardCopy t, PasteHotkey, Log INFO ''Text pasted at cursor.'']"
  "delivery_actions sample_env = 2"
  "delivery_error no_clipboard_env = Some ''no clipboard mechanism''"
  "delivery_tail no_clipboard_env t = []"
  "delivery_actions no_clipboard_env = 0"
  "delivery_error no_paste_env = Some ''no display''"
  "delivery_tail no_paste_env t = [ClipboardCopy t]"
  "delivery_actions no_paste_env = 1"
  by (simp_all add: delivery_error_def delivery_tail_def delivery_actions_def sample_env_def
        no_clipboard_env_def no_paste_env_def)

lemma sample_completion:
  "transcription_complete (unicode ''hello world'')
     (sample_indicator\<lparr>ind_recording := True, start_time := Some 1000\<rparr>) =
   [Notify_text ''Transcription Complete''
      (unicode ''Text: hello world'' @ [0x0A] @ unicode ''Saved to session log''),
    Log INFO ''Visual indicators: Transcription complete'']"
  by (simp add: transcription_complete_def show_notification_text_def sample_indicator_def
        preview_def logging_def unicode_def)

lemma sample_show_error:
  "show_error ''Transcription failed''
     (sample_indicator\<lparr>ind_recording := True, start_time := Some 1000\<rparr>) =
   [Notify ''Error'' ''Transcription failed'',
    Log INFO ''Visual indicators: Error shown - Transcription failed'']"
  by (simp add: show_error_def show_notification_def sample_indicator_def logging_def)

lemma no_clipboard_action:
  "clipboard_actions evs = 0 \<Longrightarrow> ClipboardCopy t \<notin> set evs \<and> PasteHotkey \<notin> set evs"
  by (induction evs) (auto split: if_splits)




text \<open>The sibling path: a failure of the engine is forwarded to the logger and the indicator.\<close>

lemma engine_failure_is_forwarded:
  assumes "recording w" and "audio_frames w \<noteq> []" and "concatenate e = Succeeds"
    and "wav_writable e" and "whisper e (concat (audio_frames w)) = Inl err"
    and "session_logger w = Some lg" and "visual_indicator w = Some vi"
  shows "session_logger (stop_recording_and_transcribe e w) =
           Some (fst (snd (log_error (log_env e) (''Transcription failed: '' @ err)
                             (start_datetime w) lg (log_files w))))"
    and "log_files (stop_recording_and_transcribe e w) =
           fst (snd (snd (log_error (log_env e) (''Transcription failed: '' @ err)
                            (start_datetime w) lg (log_files w))))"
    and "set (show_error ''Transcription failed'' vi)
           \<subseteq> set (events (stop_recording_and_transcribe e w))"
    and "clipboard_actions (events (stop_recording_and_transcribe e w)) = clipboard_actions (events w)"
proof -
  let ?a = "concat (audio_frames w)"
  let ?w3 = "cancel_timer (update_indicator indicator_stop_recording (w\<lparr>recording := False\<rparr>))"
  have f3: "audio_frames ?w3 \<noteq> []" using assms(2) by simp
  have a3: "concat (audio_frames ?w3) = ?a" by simp
  obtain w6 pre where
    p: "process_audio e ?w3 = (None, transcribe_audio e ?a w6)" and
    l6: "session_logger w6 = session_logger ?w3" "log_files w6 = log_files ?w3" and
    v6: "visual_indicator w6 = visual_indicator ?w3" and
    s6: "recording_start_time w6 = recording_start_time ?w3" and
    q: "quiet pre" and e6: "events w6 = events ?w3 @ pre"
    using process_audio_reaches[OF f3 assms(3,4)] unfolding a3 by blast
  let ?w7 = "emit [Transcribe ?a]
               (logged INFO ''Using direct numpy array transcription...''
                  (logged INFO ''Transcribing... please wait.'' w6))"
  have tr: "transcribe_audio e ?a w6 = transcription_failed e err ?w7"
    using assms(5) by (simp add: transcribe_audio_def Let_def)
  have st: "stop_recording_and_transcribe e w = cleanup_temp_file e (transcription_failed e err ?w7)"
    using assms(1) p tr by (simp add: stop_recording_and_transcribe_def stop_body_def Let_def)
  have sd: "start_datetime ?w7 = start_datetime w"
    using s6 by (simp add: start_datetime_def)
  have l7: "session_logger ?w7 = Some lg" "log_files ?w7 = log_files w"
    using l6 assms(6) by simp_all
  have v7: "visual_indicator ?w7 = Some (fst (indicator_stop_recording vi))"
    using v6 assms(7) by (simp add: update_indicator_indicator)
  show "session_logger (stop_recording_and_transcribe e w) =
           Some (fst (snd (log_error (log_env e) (''Transcription failed: '' @ err)
                             (start_datetime w) lg (log_files w))))"
    using l7 sd by (simp add: st transcription_failed_logger)
  show "log_files (stop_recording_and_transcribe e w) =
           fst (snd (snd (log_error (log_env e) (''Transcription failed: '' @ err)
                            (start_datetime w) lg (log_files w))))"
    using l7 sd by (simp add: st transcription_failed_logger)
  show "set (show_error ''Transcription failed'' vi)
           \<subseteq> set (events (stop_recording_and_transcribe e w))"
    using transcription_failed_notifies[OF v7, of e err]
    by (auto simp: st cleanup_temp_file_events_eq)
  show "clipboard_actions (events (stop_recording_and_transcribe e w)) = clipboard_actions (events w)"
    using assms by (simp add: stop_counts reaches_engine_def yields_text_def)
qed

lemma sample_error_call:
  "log_error sample_logger_env ''Transcription failed: out of memory'' (Some 1000)
     sample_logger Map.empty =
   (True, sample_logger\<lparr>recording_count := 1\<rparr>,
    [sample_path \<mapsto> [Error_header 1000 1, Error_message ''Transcription failed: out of memory'',
                     Rule30]],
    [Log INFO ''Error logged to session file''])"
  by (simp add: log_error_def sample_logger_def sample_logger_env_def sample_path_def
        truthy_str_def append_file_def dict_get_def logging_def Let_def)

text \<open>
  Claim C7, evaluated on a session that recorded three samples. When all three WAV
  writers fail, the stop request logs \<open>All WAV writing methods failed!\<close> and returns:
  the engine is not invoked and the recording flag is clear, but the session logger and
  its files are unchanged and no error notification is shown. When instead the engine
  raises, the failure is written to the session log and shown as an error notification.
\<close>

theorem serialization_failure_not_forwarded:
  "recording recorded_world \<and> audio_frames recorded_world = [[0.1, 0.2], [0.3]]
   \<and> session_logger recorded_world = Some sample_logger
   \<and> log_files recorded_world = Map.empty
   \<and> error_notices (events recorded_world) = 0
   \<and> \<not> wav_writable broken_disk_env
   \<and> \<not> recording (stop_recording_and_transcribe broken_disk_env recorded_world)
   \<and> session_logger (stop_recording_and_transcribe broken_disk_env recorded_world) = Some sample_logger
   \<and> log_files (stop_recording_and_transcribe broken_disk_env recorded_world) = Map.empty
   \<and> error_notices (events (stop_recording_and_transcribe broken_disk_env recorded_world)) = 0
   \<and> transcription_attempts (events (stop_recording_and_transcribe broken_disk_env recorded_world)) = 0
   \<and> Log ERROR ''All WAV writing methods failed!''
        \<in> set (events (stop_recording_and_transcribe broken_disk_env recorded_world))
   \<and> session_logger (stop_recording_and_transcribe failing_model_env recorded_world) =
        Some (sample_logger\<lparr>recording_count := 1\<rparr>)
   \<and> log_files (stop_recording_and_transcribe failing_model_env recorded_world) =
        [sample_path \<mapsto> [Error_header 1000 1,
                         Error_message ''Transcription failed: out of memory'', Rule30]]
   \<and> Notify ''Error'' ''Transcription failed''
        \<in> set (events (stop_recording_and_transcribe failing_model_env recorded_world))"
proof -
  have nw: "\<not> wav_writable broken_disk_env" "concatenate broken_disk_env = Succeeds"
    by (simp_all add: broken_disk_env_def sample_env_def wav_writable_def)
  have r: "recording recorded_world" "audio_frames recorded_world \<noteq> []"
    by (simp_all add: recorded_world_fields)
  have en: "error_notices (events recorded_world) = 0"
    by (simp add: recorded_world_fields capturing_world_fields error_notices_def)
  note silent = serialization_failure_is_silent[OF r nw(2) nw(1)]
  have fm: "concatenate failing_model_env = Succeeds" "wav_writable failing_model_env"
      "whisper failing_model_env (concat (audio_frames recorded_world)) = Inl ''out of memory''"
      "log_env failing_model_env = sample_logger_env"
    by (simp_all add: failing_model_env_def sample_env_def wav_writable_def)
  note fwd = engine_failure_is_forwarded[OF r fm(1,2,3) recorded_world_fields(3,4)]
  have sd: "start_datetime recorded_world = Some 1000"
    by (simp add: start_datetime_def recorded_world_fields truthy_float_def)
  have se: "show_error ''Transcription failed''
              (sample_indicator\<lparr>ind_recording := True, start_time := Some 1000\<rparr>) =
            [Notify ''Error'' ''Transcription failed'',
             Log INFO ''Visual indicators: Error shown - Transcription failed'']"
    by (simp add: show_error_def show_notification_def sample_indicator_def logging_def)
  have n: "Notify ''Error'' ''Transcription failed''
             \<in> set (events (stop_recording_and_transcribe failing_model_env recorded_world))"
    using fwd(3) unfolding se by simp
  show ?thesis
    using r nw en silent fwd(1,2) n
    by (simp add: recorded_world_fields fm sd sample_error_call attempts_capturing)
qed

end
